theory Spec2Isabelle
  imports Complex_Main "HOL-Library.Word"
begin

section \<open>JavaScript strings\<close>

text \<open>
  A JavaScript string is a sequence of UTF-16 code units. The regular expressions of the
  sources carry no \<open>u\<close> flag, so they too work on code units. A code unit is modelled by
  its number, an integer from 0 to \<open>0xFFFF\<close>; the only arithmetic on code units is the shift
  by \<open>0x20\<close> between \<open>A-Z\<close> and \<open>a-z\<close>, which stays in that range.
\<close>

type_synonym jschar = int
type_synonym jsstring = "jschar list"

text \<open>An ASCII literal of the source, as code units.\<close>

definition u :: "string \<Rightarrow> jsstring" where
  "u s = map of_char s"

text \<open>
  The class \<open>\s\<close> of a regular expression, which is also the set that \<open>trim()\<close> strips
  (WhiteSpace and LineTerminator of ECMAScript).
\<close>

definition isWhiteSpace :: "jschar \<Rightarrow> bool" where
  "isWhiteSpace c \<longleftrightarrow>
     (0x09 \<le> c \<and> c \<le> 0x0D) \<or> c = 0x20 \<or> c = 0xA0 \<or> c = 0x1680 \<or>
     (0x2000 \<le> c \<and> c \<le> 0x200A) \<or> c = 0x2028 \<or> c = 0x2029 \<or> c = 0x202F \<or>
     c = 0x205F \<or> c = 0x3000 \<or> c = 0xFEFF"

definition isLowerAZ :: "jschar \<Rightarrow> bool" where
  "isLowerAZ c \<longleftrightarrow> 0x61 \<le> c \<and> c \<le> 0x7A"

definition isUpperAZ :: "jschar \<Rightarrow> bool" where
  "isUpperAZ c \<longleftrightarrow> 0x41 \<le> c \<and> c \<le> 0x5A"

definition isDigit :: "jschar \<Rightarrow> bool" where
  "isDigit c \<longleftrightarrow> 0x30 \<le> c \<and> c \<le> 0x39"

text \<open>The range U+4E00 to U+9FA5 that the sources write in their character classes.\<close>

definition isCJK :: "jschar \<Rightarrow> bool" where
  "isCJK c \<longleftrightarrow> 0x4E00 \<le> c \<and> c \<le> 0x9FA5"

definition hyphen :: jschar where
  "hyphen = 0x2D"

definition trim :: "jsstring \<Rightarrow> jsstring" where
  "trim s = rev (dropWhile isWhiteSpace (rev (dropWhile isWhiteSpace s)))"

text \<open>
  \<open>String.prototype.toLowerCase\<close>, code unit by code unit. The letters \<open>A-Z\<close> go to
  \<open>a-z\<close>, the Kelvin sign U+212A goes to \<open>k\<close>, and U+0130 goes to \<open>i\<close> followed by the
  combining dot U+0307. Every other case mapping of Unicode sends a code unit outside
  ASCII to one code unit outside ASCII, the CJK range and the white space; no function
  below tells such code units apart, so they are left as they are.
\<close>

definition lowerUnit :: "jschar \<Rightarrow> jsstring" where
  "lowerUnit c =
     (if isUpperAZ c then [c + 0x20]
      else if c = 0x212A then [0x6B]
      else if c = 0x0130 then [0x69, 0x0307]
      else [c])"

definition toLowerCase :: "jsstring \<Rightarrow> jsstring" where
  "toLowerCase s = concat (map lowerUnit s)"

text \<open>
  \<open>s.replace(/[C]+/g, r)\<close> for a character class \<open>C\<close>: every maximal run of code units
  of the class is replaced by \<open>r\<close>.
\<close>

function replaceRuns :: "(jschar \<Rightarrow> bool) \<Rightarrow> jsstring \<Rightarrow> jsstring \<Rightarrow> jsstring" where
  "replaceRuns P r [] = []"
| "replaceRuns P r (c # cs) =
     (if P c then r @ replaceRuns P r (dropWhile P cs) else c # replaceRuns P r cs)"
  by pat_completeness auto
termination
  by (relation "measure (\<lambda>(P, r, s). length s)")
     (auto simp: le_imp_less_Suc length_dropWhile_le)

section \<open>Sanitizer\<close>

text \<open>The class that the sanitizer strips, \<open>[^a-z0-9\s-]\<close> extended by the CJK range, is the
  complement of this one.\<close>

definition keptChar :: "jschar \<Rightarrow> bool" where
  "keptChar c \<longleftrightarrow> isLowerAZ c \<or> isDigit c \<or> isCJK c \<or> isWhiteSpace c \<or> c = hyphen"

definition sanitizeKeyword :: "jsstring \<Rightarrow> jsstring" where
  "sanitizeKeyword v =
     replaceRuns (\<lambda>c. c = hyphen) [hyphen]
       (replaceRuns isWhiteSpace [hyphen]
         (filter keptChar (toLowerCase (trim v))))"

section \<open>Numbers of the application\<close>

text \<open>
  \<open>String(n)\<close> for a non-negative integer: its decimal digits. (JavaScript switches to
  exponent notation from \<open>10^21\<close> on; indices, byte counts and timestamps stay far below.)
\<close>

function numberToString :: "nat \<Rightarrow> jsstring" where
  "numberToString n =
     (if n < 10 then [0x30 + of_nat n]
      else numberToString (n div 10) @ [0x30 + of_nat (n mod 10)])"
  by pat_completeness auto
termination
  by (relation "measure (\<lambda>n. n)") auto

declare numberToString.simps [simp del]

text \<open>\<open>s.padStart(n, c)\<close> with a one-character filler.\<close>

definition padStart :: "nat \<Rightarrow> jschar \<Rightarrow> jsstring \<Rightarrow> jsstring" where
  "padStart n c s = replicate (n - length s) c @ s"

text \<open>
  \<open>xs.slice(0, e)\<close>: a negative end counts from the end of the array.
\<close>

definition slice0 :: "int \<Rightarrow> 'a list \<Rightarrow> 'a list" where
  "slice0 e xs = (if e < 0 then take (nat (int (length xs) + e)) xs else take (nat e) xs)"

text \<open>
  The sizes shown to the user are JavaScript numbers. They are modelled as exact rationals:
  \<open>size / 1024\<close> is exact in a double, and \<open>toFixed(1)\<close> picks the integer \<open>n\<close> with
  \<open>n / 10\<close> nearest to the value, the larger one at a tie, after taking the sign off.
\<close>

definition toFixed1 :: "rat \<Rightarrow> rat" where
  "toFixed1 x =
     (if x < 0 then - (of_int \<lfloor>(- x) * 10 + 1 / 2\<rfloor> / 10)
      else of_int \<lfloor>x * 10 + 1 / 2\<rfloor> / 10)"

section \<open>Data model of the application\<close>

text \<open>
  The application is modelled from the copy of \<open>App.tsx\<close> that has per-image keywords,
  \<open>processSingleImage\<close>, \<open>compressSingleImage\<close> and \<open>deleteSingleImage\<close>; line numbers
  are those of that copy. \<open>src/App.tsx\<close> has the same transform inline in the loop of
  \<open>processImages\<close>, with the global keyword and the loop counter, and the same
  \<open>handleFiles\<close>.
\<close>

type_synonym byte = "8 word"

text \<open>A browser \<open>File\<close>: \<open>file.size\<close> is the number of its bytes.\<close>

record File =
  fname :: jsstring
  ftype :: jsstring
  fbytes :: "byte list"
  lastModified :: nat

definition fsize :: "File \<Rightarrow> nat" where
  "fsize f = length (fbytes f)"

text \<open>
  \<open>InputImage\<close>. The preview URL and the two progress fields only drive the display and
  are left out.
\<close>

record InputImage =
  image_id :: jsstring
  imageFile :: File
  customKeyword :: "jsstring option"
  forceSquare :: "bool option"

text \<open>\<open>ProcessedImage\<close>, without its download URL; \<open>blob\<close> holds the bytes of the output.\<close>

record ProcessedImage =
  result_id :: jsstring
  originalName :: jsstring
  seoName :: jsstring
  blob :: "byte list"
  sizeKb :: rat
  originalSizeKb :: rat
  savedPercent :: rat

definition MAX_FILES :: nat where
  "MAX_FILES = 10"

definition mimeToExt :: "jsstring \<rightharpoonup> jsstring" where
  "mimeToExt = map_of
     [(u ''image/jpeg'', u ''jpg''),
      (u ''image/png'', u ''png''),
      (u ''image/webp'', u ''webp'')]"

text \<open>The content types that \<open>handleFiles\<close> lets into the batch.\<close>

definition acceptedTypes :: "jsstring list" where
  "acceptedTypes =
     [u ''image/jpeg'', u ''image/png'', u ''image/webp'', u ''image/heic'', u ''image/heif'']"

section \<open>The browser as a parameter\<close>

text \<open>
  What \<open>drawImage\<close> is called with: the source rectangle and the size of the canvas.
\<close>

record Draw =
  sx :: rat
  sy :: rat
  sWidth :: nat
  sHeight :: nat
  targetWidth :: nat
  targetHeight :: nat

text \<open>
  Decoding and encoding are the browser's. \<open>createImageBitmap\<close> gives the width and
  height of the decoded image, or \<open>None\<close> when both the call and its \<open>Image\<close> fallback
  reject; \<open>getContext\<close> tells whether the canvas gives a 2D context; \<open>toBlob\<close> gives the
  bytes encoded from the drawn canvas for a content type and a quality, or \<open>None\<close> when
  the callback receives \<open>null\<close>.
\<close>

record Platform =
  createImageBitmap :: "File \<Rightarrow> (nat \<times> nat) option"
  getContext :: bool
  toBlob :: "File \<Rightarrow> Draw \<Rightarrow> jsstring \<Rightarrow> rat option \<Rightarrow> byte list option"

section \<open>Transform of one image\<close>

text \<open>Lines 563 to 578 of \<open>processSingleImage\<close>: the rectangle to draw.\<close>

definition drawRect :: "bool \<Rightarrow> nat \<Rightarrow> nat \<Rightarrow> Draw" where
  "drawRect forceSquareToUse width height =
     (if forceSquareToUse then
        (let size = min width height in
         \<lparr>sx = (of_nat width - of_nat size) / 2, sy = (of_nat height - of_nat size) / 2,
          sWidth = size, sHeight = size, targetWidth = size, targetHeight = size\<rparr>)
      else
        \<lparr>sx = 0, sy = 0, sWidth = width, sHeight = height,
         targetWidth = width, targetHeight = height\<rparr>)"

definition originalTypeOf :: "InputImage \<Rightarrow> jsstring" where
  "originalTypeOf input = (if ftype (imageFile input) = [] then u ''image/jpeg'' else ftype (imageFile input))"

definition preferredTypeOf :: "InputImage \<Rightarrow> jsstring" where
  "preferredTypeOf input =
     (if originalTypeOf input \<in> set [u ''image/jpeg'', u ''image/png'', u ''image/webp'']
      then originalTypeOf input else u ''image/jpeg'')"

definition targetBytes :: nat where
  "targetBytes = 200 * 1024"

text \<open>
  The first half of \<open>processSingleImage\<close> (decode, draw, encode at 0.78, one retry at 0.6
  above 200 KiB): the encoded bytes \<open>outputBlob\<close>, or \<open>None\<close> where the source throws.
\<close>

definition encodeImage :: "Platform \<Rightarrow> InputImage \<Rightarrow> bool \<Rightarrow> byte list option" where
  "encodeImage env input forceSquareToUse =
     (case createImageBitmap env (imageFile input) of
        None \<Rightarrow> None
      | Some (width, height) \<Rightarrow>
          if \<not> getContext env then None
          else
            (let d = drawRect forceSquareToUse width height;
                 preferredType = preferredTypeOf input;
                 canAdjustQuality =
                   (preferredType = u ''image/jpeg'' \<or> preferredType = u ''image/webp'');
                 quality = (if canAdjustQuality then Some (78 / 100) else None)
             in case toBlob env (imageFile input) d preferredType quality of
                  None \<Rightarrow> None
                | Some outputBlob \<Rightarrow>
                    if canAdjustQuality \<and> length outputBlob > targetBytes
                    then toBlob env (imageFile input) d preferredType (Some (6 / 10))
                    else Some outputBlob))"

text \<open>
  The second half of \<open>processSingleImage\<close>: fallback to the original bytes, name, sizes.
\<close>

definition finishImage ::
  "InputImage \<Rightarrow> jsstring \<Rightarrow> nat \<Rightarrow> byte list \<Rightarrow> ProcessedImage" where
  "finishImage input keywordToUse index outputBlob =
     (let indexStr = padStart 2 0x30 (numberToString (index + 1));
          originalSizeKb = toFixed1 (of_nat (fsize (imageFile input)) / 1024);
          ext0 = (case mimeToExt (preferredTypeOf input) of Some e \<Rightarrow> e | None \<Rightarrow> u ''jpg'');
          fallback = (length outputBlob > fsize (imageFile input));
          finalBlob = (if fallback then fbytes (imageFile input) else outputBlob);
          ext = (if fallback
                 then (case mimeToExt (originalTypeOf input) of Some e \<Rightarrow> e | None \<Rightarrow> ext0)
                 else ext0);
          cleanKeyword =
            (if sanitizeKeyword keywordToUse = [] then u ''product''
             else sanitizeKeyword keywordToUse);
          seoName = cleanKeyword @ u ''-'' @ indexStr @ u ''.'' @ ext;
          finalSizeKb = toFixed1 (of_nat (length finalBlob) / 1024);
          savedPercent =
            (if originalSizeKb > 0
             then max 0 (toFixed1
                    (((originalSizeKb - of_nat (length finalBlob) / 1024) / originalSizeKb) * 100))
             else 0)
      in \<lparr>result_id = image_id input, originalName = fname (imageFile input), seoName = seoName,
          blob = finalBlob, sizeKb = finalSizeKb, originalSizeKb = originalSizeKb,
          savedPercent = savedPercent\<rparr>)"

text \<open>\<open>None\<close> is the \<open>null\<close> that the \<open>catch\<close> block returns.\<close>

definition processSingleImage ::
  "Platform \<Rightarrow> InputImage \<Rightarrow> jsstring \<Rightarrow> bool \<Rightarrow> nat \<Rightarrow> ProcessedImage option" where
  "processSingleImage env input keywordToUse forceSquareToUse index =
     (case encodeImage env input forceSquareToUse of
        None \<Rightarrow> None
      | Some outputBlob \<Rightarrow> Some (finishImage input keywordToUse index outputBlob))"

section \<open>State of the application and its handlers\<close>

datatype Message =
  MessageInvalidType | MessageLimit nat | MessageProcessing | MessageDone | MessageFail
  | MessageEnterKeyword | MessageRetry

text \<open>
  The React state that the handlers below read and write. \<open>signals\<close> records every call
  of \<open>setMessage\<close>, oldest first, so that raising a message can be counted.
\<close>

record AppState =
  keyword :: jsstring
  files :: "InputImage list"
  processed :: "ProcessedImage list"
  isSquare :: bool
  isProcessing :: bool
  message :: "Message option"
  signals :: "Message option list"
  totalProcessedCount :: nat

definition setMessage :: "Message option \<Rightarrow> AppState \<Rightarrow> AppState" where
  "setMessage m st = st\<lparr>message := m, signals := signals st @ [m]\<rparr>"

text \<open>
  The id of an accepted file; \<open>salt\<close> stands for \<open>Math.random().toString(36).slice(2)\<close>.
\<close>

definition newInputImage :: "jsstring \<Rightarrow> File \<Rightarrow> InputImage" where
  "newInputImage salt f =
     \<lparr>image_id = fname f @ u ''-'' @ numberToString (fsize f) @ u ''-''
                  @ numberToString (lastModified f) @ u ''-'' @ salt,
      imageFile = f, customKeyword = None, forceSquare = None\<rparr>"

text \<open>
  \<open>handleFiles\<close>; \<open>rnd k\<close> is the salt drawn for the \<open>k\<close>-th accepted file, and \<open>None\<close> is
  the \<open>null\<close> file list.
\<close>

definition handleFiles :: "(nat \<Rightarrow> jsstring) \<Rightarrow> File list option \<Rightarrow> AppState \<Rightarrow> AppState" where
  "handleFiles rnd fileList st =
     (case fileList of
        None \<Rightarrow> st
      | Some fl \<Rightarrow>
          (let incoming = filter (\<lambda>f. ftype f \<in> set acceptedTypes) fl in
           if incoming = [] then setMessage (Some MessageInvalidType) st
           else
             (let remainingSlots = int MAX_FILES - int (length (files st));
                  sliced = slice0 remainingSlots incoming;
                  mapped = map (\<lambda>(k, f). newInputImage (rnd k) f) (enumerate 0 sliced);
                  st1 = (if length (files st) + length mapped \<ge> MAX_FILES
                         then setMessage (Some (MessageLimit MAX_FILES)) st
                         else setMessage None st)
              in st1\<lparr>files := files st1 @ mapped, processed := []\<rparr>)))"

text \<open>\<open>input.customKeyword || keyword\<close>: an absent or empty override gives the global one.\<close>

definition keywordFor :: "jsstring \<Rightarrow> InputImage \<Rightarrow> jsstring" where
  "keywordFor kw input =
     (case customKeyword input of
        None \<Rightarrow> kw
      | Some k \<Rightarrow> if k = [] then kw else k)"

definition forceSquareFor :: "bool \<Rightarrow> InputImage \<Rightarrow> bool" where
  "forceSquareFor sq input = (case forceSquare input of None \<Rightarrow> sq | Some b \<Rightarrow> b)"

text \<open>
  The \<open>for\<close> loop of \<open>processImages\<close>, from index \<open>i\<close> on: an item with a blank keyword
  is skipped by \<open>continue\<close>, a result is pushed, a \<open>null\<close> is passed over.
\<close>

fun processLoop ::
  "Platform \<Rightarrow> jsstring \<Rightarrow> bool \<Rightarrow> nat \<Rightarrow> InputImage list \<Rightarrow> ProcessedImage list
     \<Rightarrow> ProcessedImage list" where
  "processLoop env kw sq i [] results = results"
| "processLoop env kw sq i (input # rest) results =
     (let keywordToUse = keywordFor kw input;
          forceSquareToUse = forceSquareFor sq input
      in if trim keywordToUse = [] then processLoop env kw sq (i + 1) rest results
         else
           (case processSingleImage env input keywordToUse forceSquareToUse i of
              Some result \<Rightarrow> processLoop env kw sq (i + 1) rest (results @ [result])
            | None \<Rightarrow> processLoop env kw sq (i + 1) rest results))"

definition processImages :: "Platform \<Rightarrow> AppState \<Rightarrow> AppState" where
  "processImages env st =
     (if files st = [] \<or> trim (keyword st) = [] then st
      else
        (let st1 = setMessage (Some MessageProcessing) (st\<lparr>isProcessing := True\<rparr>);
             results = processLoop env (keyword st) (isSquare st) 0 (files st) [];
             st2 = st1\<lparr>processed := results, isProcessing := False\<rparr>;
             st3 = setMessage (Some (if results \<noteq> [] then MessageDone else MessageFail)) st2
         in if length results > 0
            then st3\<lparr>totalProcessedCount := totalProcessedCount st3 + length results\<rparr>
            else st3))"

text \<open>\<open>xs.findIndex(p)\<close> where an element satisfies \<open>p\<close>; the source calls it only then.\<close>

fun findIndex :: "('a \<Rightarrow> bool) \<Rightarrow> 'a list \<Rightarrow> nat" where
  "findIndex p [] = 0"
| "findIndex p (x # xs) = (if p x then 0 else Suc (findIndex p xs))"

definition compressSingleImage :: "Platform \<Rightarrow> jsstring \<Rightarrow> AppState \<Rightarrow> AppState" where
  "compressSingleImage env imageId st =
     (case find (\<lambda>f. image_id f = imageId) (files st) of
        None \<Rightarrow> st
      | Some img \<Rightarrow>
          (let keywordToUse = keywordFor (keyword st) img;
               forceSquareToUse = forceSquareFor (isSquare st) img
           in if trim keywordToUse = [] then setMessage (Some MessageEnterKeyword) st
              else
                (let index = findIndex (\<lambda>f. image_id f = imageId) (files st) in
                 case processSingleImage env img keywordToUse forceSquareToUse index of
                   Some result \<Rightarrow>
                     st\<lparr>processed :=
                          filter (\<lambda>p. result_id p \<noteq> imageId) (processed st) @ [result],
                        totalProcessedCount := totalProcessedCount st + 1\<rparr>
                 | None \<Rightarrow> setMessage (Some MessageRetry) st)))"

definition deleteSingleImage :: "jsstring \<Rightarrow> AppState \<Rightarrow> AppState" where
  "deleteSingleImage imageId st =
     st\<lparr>files := filter (\<lambda>f. image_id f \<noteq> imageId) (files st),
        processed := filter (\<lambda>p. result_id p \<noteq> imageId) (processed st)\<rparr>"

text \<open>
  The inline editor of a file row: \<open>customKeyword: editingKeyword.trim() || undefined\<close>.
\<close>

definition editKeyword :: "jsstring \<Rightarrow> jsstring \<Rightarrow> AppState \<Rightarrow> AppState" where
  "editKeyword imageId editingKeyword st =
     st\<lparr>files :=
          map (\<lambda>f. if image_id f = imageId
                   then f\<lparr>customKeyword :=
                           (if trim editingKeyword = [] then None else Some (trim editingKeyword))\<rparr>
                   else f)
              (files st)\<rparr>"

definition handleClear :: "AppState \<Rightarrow> AppState" where
  "handleClear st = setMessage None (st\<lparr>files := [], processed := [], keyword := []\<rparr>)"

definition initialState :: AppState where
  "initialState =
     \<lparr>keyword = [], files = [], processed = [], isSquare = False, isProcessing = False,
      message = None, signals = [], totalProcessedCount = 0\<rparr>"

section \<open>The naming and savings rules as the specification words them\<close>

text \<open>
  The sequence index as a zero-padded 2-digit decimal, wider numbers at their natural
  width.
\<close>

definition paddedIndex :: "nat \<Rightarrow> jsstring" where
  "paddedIndex i = (if i < 10 then u ''0'' @ numberToString i else numberToString i)"

text \<open>The fixed table of extensions, every other content type defaulting to \<open>jpg\<close>.\<close>

definition extensionOf :: "jsstring \<Rightarrow> jsstring" where
  "extensionOf t =
     (if t = u ''image/jpeg'' then u ''jpg''
      else if t = u ''image/png'' then u ''png''
      else if t = u ''image/webp'' then u ''webp''
      else u ''jpg'')"

definition name_spec :: "jsstring \<Rightarrow> nat \<Rightarrow> jsstring \<Rightarrow> jsstring" where
  "name_spec k i t =
     (if sanitizeKeyword k = [] then u ''product'' else sanitizeKeyword k)
       @ u ''-'' @ paddedIndex i @ u ''.'' @ extensionOf t"



section \<open>Sample inputs\<close>

text \<open>
  A stand-in for the browser: an empty file does not decode, every other file decodes to
  a 4 by 3 image, and the encoder gives \<open>n\<close> zero bytes at quality 0.78 (or without a
  quality) and \<open>m\<close> zero bytes at any other quality.
\<close>

definition stubPlatform :: "nat \<Rightarrow> nat \<Rightarrow> Platform" where
  "stubPlatform n m =
     \<lparr>createImageBitmap = (\<lambda>f. if fbytes f = [] then None else Some (4, 3)),
      getContext = True,
      toBlob = (\<lambda>f d t q. if q = Some (6 / 10) then Some (replicate m 0) else Some (replicate n 0))\<rparr>"

definition sampleFile :: "string \<Rightarrow> string \<Rightarrow> nat \<Rightarrow> File" where
  "sampleFile n t k = \<lparr>fname = u n, ftype = u t, fbytes = replicate k 1, lastModified = 0\<rparr>"

definition sampleImage :: "string \<Rightarrow> string \<Rightarrow> nat \<Rightarrow> InputImage" where
  "sampleImage n t k = newInputImage (u ''x'') (sampleFile n t k)"

section \<open>Notions used to state the properties of the handlers\<close>

text \<open>The calls of \<open>setMessage\<close> made between a state and a later one.\<close>

definition raised :: "AppState \<Rightarrow> AppState \<Rightarrow> Message option list" where
  "raised st st' = drop (length (signals st)) (signals st')"

text \<open>
  The outcome of one pass of the loop of \<open>processImages\<close> for the item at position \<open>i\<close>:
  its record, or nothing when the item is skipped or its transform fails.
\<close>

definition processItem ::
  "Platform \<Rightarrow> jsstring \<Rightarrow> bool \<Rightarrow> nat \<Rightarrow> InputImage \<Rightarrow> ProcessedImage option" where
  "processItem env kw sq i input =
     (if trim (keywordFor kw input) = [] then None
      else processSingleImage env input (keywordFor kw input) (forceSquareFor sq input) i)"

text \<open>
  A batch of three accepted JPEG files with the keyword \<open>kw\<close>; the second file is empty
  and does not decode.
\<close>

definition sampleBatch :: AppState where
  "sampleBatch =
     (handleFiles (\<lambda>k. u ''x'')
        (Some [sampleFile ''a.jpg'' ''image/jpeg'' 3, sampleFile ''b.jpg'' ''image/jpeg'' 0,
               sampleFile ''c.jpg'' ''image/jpeg'' 4])
        initialState)\<lparr>keyword := u ''kw''\<rparr>"

section \<open>Rule tables of the classifier\<close>

text \<open>
  The classifier is modelled from the copy of \<open>utils/imageClassifier.ts\<close> that cleans the
  file name and merges the keywords of a visual model; line numbers are those of that
  copy. A table of \<open>analyzeFileName\<close> maps a token to its patterns; \<open>Object.entries\<close> lists the
  entries in the order they are written. Patterns in Chinese are given by their code
  units. Each table has the name of its constant in the source.
\<close>

type_synonym entries = "(jsstring \<times> jsstring list) list"

text \<open>Colours.\<close>

definition colors :: entries where
  "colors =
     [(u ''red'',
        [[0x7EA2], [0x7EA2, 0x8272], [0x8D64], [0x6731, 0x7EA2], [0x7EEF, 0x7EA2], u ''red'',
          u ''crimson'', u ''scarlet'', u ''burgundy'', u ''maroon'']),
      (u ''blue'',
        [[0x84DD], [0x84DD, 0x8272], [0x6E5B, 0x84DD], [0x5929, 0x84DD], [0x5B9D, 0x84DD],
          u ''navy'', u ''royal'', u ''sky'', u ''azure'', u ''cyan'']),
      (u ''green'',
        [[0x7EFF], [0x7EFF, 0x8272], [0x7FE0, 0x7EFF], [0x58A8, 0x7EFF], [0x8349, 0x7EFF],
          u ''emerald'', u ''mint'', u ''lime'', u ''olive'', u ''forest'']),
      (u ''yellow'',
        [[0x9EC4], [0x9EC4, 0x8272], [0x91D1, 0x9EC4], [0x6A59, 0x9EC4],
          [0x67E0, 0x6AAC, 0x9EC4], u ''golden'', u ''amber'', u ''lemon'', u ''mustard'']),
      (u ''black'',
        [[0x9ED1], [0x9ED1, 0x8272], [0x7384], [0x58A8, 0x9ED1], [0x4E4C, 0x9ED1],
          u ''ebony'', u ''charcoal'', u ''onyx'']),
      (u ''white'',
        [[0x767D], [0x767D, 0x8272], [0x7EAF, 0x767D], [0x8C61, 0x7259, 0x767D],
          [0x96EA, 0x767D], u ''ivory'', u ''pearl'', u ''cream'', u ''off-white'']),
      (u ''gray'',
        [[0x7070], [0x7070, 0x8272], [0x70AD, 0x7070], [0x94F6, 0x7070], [0x6D45, 0x7070],
          u ''grey'', u ''slate'', u ''ash'', u ''silver'']),
      (u ''pink'',
        [[0x7C89], [0x7C89, 0x8272], [0x6843, 0x7EA2], [0x73AB, 0x7EA2], [0x7C89, 0x7EA2],
          u ''rose'', u ''coral'', u ''salmon'', u ''blush'']),
      (u ''purple'',
        [[0x7D2B], [0x7D2B, 0x8272], [0x7D2B, 0x7F57, 0x5170], [0x85B0, 0x8863, 0x8349],
          u ''violet'', u ''lavender'', u ''plum'', u ''mauve'']),
      (u ''orange'',
        [[0x6A59], [0x6A59, 0x8272], [0x6A58, 0x8272], [0x6A58, 0x7EA2], u ''tangerine'',
          u ''peach'', u ''apricot'']),
      (u ''brown'',
        [[0x68D5], [0x68D5, 0x8272], [0x8910, 0x8272], [0x5496, 0x5561, 0x8272],
          [0x5361, 0x5176], u ''tan'', u ''beige'', u ''khaki'', u ''camel'', u ''chocolate'']),
      (u ''beige'',
        [[0x7C73, 0x8272], [0x7C73, 0x767D], [0x674F, 0x8272], [0x5361, 0x5176], u ''nude'',
          u ''sand'', u ''taupe'']),
      (u ''gold'',
        [[0x91D1], [0x91D1, 0x8272], [0x9EC4, 0x91D1], [0x91D1, 0x5C5E, 0x8272], u ''metallic'']),
      (u ''silver'',
        [[0x94F6], [0x94F6, 0x8272], [0x91D1, 0x5C5E, 0x94F6], u ''platinum'']),
      (u ''multicolor'',
        [[0x5F69], [0x591A, 0x5F69], [0x62FC, 0x8272], [0x6E10, 0x53D8], [0x82B1, 0x8272],
          u ''colorful'', u ''rainbow'', u ''print'', u ''pattern''])]"

text \<open>Materials.\<close>

definition materials :: entries where
  "materials =
     [(u ''leather'',
        [[0x76AE], [0x76AE, 0x9769], [0x771F, 0x76AE], [0x725B, 0x76AE], [0x7F8A, 0x76AE],
          u ''leather'', u ''genuine-leather'', u ''suede'', u ''nappa'']),
      (u ''canvas'',
        [[0x5E06, 0x5E03], u ''canvas'', u ''duck-canvas'']),
      (u ''cotton'',
        [[0x68C9], [0x7EAF, 0x68C9], [0x68C9, 0x8D28], u ''cotton'', u ''organic-cotton'',
          u ''pima-cotton'']),
      (u ''silk'',
        [[0x4E1D], [0x4E1D, 0x7EF8], [0x771F, 0x4E1D], [0x7F0E, 0x9762], u ''silk'',
          u ''satin'', u ''chiffon'']),
      (u ''wool'',
        [[0x7F8A, 0x6BDB], [0x6BDB], [0x7ED2], u ''wool'', u ''cashmere'', u ''merino'',
          u ''alpaca'']),
      (u ''denim'',
        [[0x4E39, 0x5B81], [0x725B, 0x4ED4, 0x5E03], u ''denim'', u ''jean'']),
      (u ''linen'',
        [[0x4E9A, 0x9EBB], [0x9EBB], u ''linen'']),
      (u ''velvet'',
        [[0x5929, 0x9E45, 0x7ED2], [0x7ED2, 0x5E03], u ''velvet'', u ''velour'']),
      (u ''lace'',
        [[0x857E, 0x4E1D], [0x9542, 0x7A7A], u ''lace'']),
      (u ''knit'',
        [[0x9488, 0x7EC7], [0x7F16, 0x7EC7], u ''knit'', u ''knitted'', u ''sweater'']),
      (u ''metal'',
        [[0x91D1, 0x5C5E], [0x5408, 0x91D1], [0x4E0D, 0x9508, 0x94A2], u ''metal'',
          u ''stainless-steel'', u ''aluminum'', u ''brass'']),
      (u ''wood'',
        [[0x6728], [0x6728, 0x8D28], [0x5B9E, 0x6728], u ''wood'', u ''wooden'', u ''bamboo'',
          u ''oak'', u ''walnut'']),
      (u ''ceramic'',
        [[0x9676, 0x74F7], [0x74F7], u ''ceramic'', u ''porcelain'']),
      (u ''glass'',
        [[0x73BB, 0x7483], [0x94A2, 0x5316, 0x73BB, 0x7483], u ''glass'', u ''crystal'']),
      (u ''plastic'',
        [[0x5851, 0x6599], [0x5851, 0x80F6], u ''plastic'', u ''pvc'', u ''acrylic'']),
      (u ''rubber'',
        [[0x6A61, 0x80F6], u ''rubber'', u ''silicone'']),
      (u ''carbon-fiber'',
        [[0x78B3, 0x7EA4, 0x7EF4], u ''carbon-fiber'', u ''carbon'']),
      (u ''fabric'',
        [[0x5E03, 0x6599], u ''fabric'', u ''textile'', u ''cloth''])]"

text \<open>Styles.\<close>

definition styles :: entries where
  "styles =
     [(u ''casual'',
        [[0x4F11, 0x95F2], [0x65E5, 0x5E38], [0x968F, 0x6027]]),
      (u ''formal'',
        [[0x6B63, 0x5F0F], [0x5546, 0x52A1], [0x804C, 0x573A]]),
      (u ''vintage'',
        [[0x590D, 0x53E4], [0x6000, 0x65E7], u ''vintage'']),
      (u ''minimalist'',
        [[0x7B80, 0x7EA6], [0x6781, 0x7B80], [0x7B80, 0x5355]]),
      (u ''luxury'',
        [[0x5962, 0x534E], [0x8C6A, 0x534E], [0x5962, 0x4F88], [0x9AD8, 0x7AEF]]),
      (u ''cute'',
        [[0x53EF, 0x7231], [0x840C], [0x751C, 0x7F8E]]),
      (u ''elegant'',
        [[0x4F18, 0x96C5], [0x5178, 0x96C5], [0x4F18, 0x96C5]]),
      (u ''sport'',
        [[0x8FD0, 0x52A8], [0x6D3B, 0x529B], [0x6237, 0x5916]]),
      (u ''classic'',
        [[0x7ECF, 0x5178], [0x7ECF, 0x5178, 0x6B3E]]),
      (u ''modern'',
        [[0x73B0, 0x4EE3], [0x6F6E, 0x6D41], [0x65F6, 0x5C1A]]),
      (u ''bohemian'',
        [[0x6CE2, 0x897F, 0x7C73, 0x4E9A], [0x6CE2, 0x897F, 0x7C73, 0x4E9A, 0x98CE]]),
      (u ''preppy'',
        [[0x5B66, 0x9662], [0x5B66, 0x9662, 0x98CE]]),
      (u ''street'',
        [[0x8857, 0x5934], [0x8857, 0x5934, 0x98CE]])]"

text \<open>Clothing.\<close>

definition clothing :: entries where
  "clothing =
     [(u ''dress'',
        [[0x8FDE, 0x8863, 0x88D9], [0x88D9, 0x88C5], [0x793C, 0x670D, 0x88D9],
          [0x665A, 0x793C, 0x670D], [0x5A5A, 0x7EB1, 0x88D9], u ''tea-dress'',
          u ''maxi-dress'', u ''midi-dress'', u ''mini-dress'', u ''cocktail-dress'',
          u ''dress'', u ''gown'']),
      (u ''skirt'',
        [[0x534A, 0x8EAB, 0x88D9], [0x77ED, 0x88D9], [0x957F, 0x88D9],
          u ''a'' @ [0x5B57, 0x88D9], [0x767E, 0x8936, 0x88D9], [0x5305, 0x81C0, 0x88D9],
          u ''skirt'', u ''pencil-skirt'', u ''a-line-skirt'', u ''pleated-skirt'']),
      (u ''pants'',
        [[0x88E4, 0x5B50], [0x957F, 0x88E4], [0x4F11, 0x95F2, 0x88E4],
          [0x76F4, 0x7B52, 0x88E4], [0x9614, 0x817F, 0x88E4], [0x5C0F, 0x811A, 0x88E4],
          u ''pants'', u ''trousers'', u ''slacks'', u ''wide-leg-pants'']),
      (u ''jeans'',
        [[0x725B, 0x4ED4, 0x88E4], [0x725B, 0x4ED4, 0x88E4], u ''denim'', [0x4E39, 0x5B81],
          u ''jeans'', u ''jean'', u ''denim-pants'']),
      (u ''shorts'',
        [[0x77ED, 0x88E4], [0x70ED, 0x88E4], u ''shorts'', u ''bermuda-shorts'',
          u ''cargo-shorts'']),
      (u ''t-shirt'',
        [u ''t'' @ [0x6064], u ''tshirt'', u ''t-shirt'', [0x77ED, 0x8896], [0x4F53, 0x6064],
          u ''tee'', u ''tank-top'', u ''sleeveless'']),
      (u ''shirt'',
        [[0x886C, 0x886B], [0x957F, 0x8896], u ''top'', [0x4E0A, 0x8863], u ''shirt'',
          u ''button-down'', u ''button-up'', u ''oxford-shirt'']),
      (u ''blouse'',
        [[0x5973, 0x886B], [0x5973, 0x58EB, 0x886C, 0x886B], [0x96EA, 0x7EBA, 0x886B],
          u ''blouse'', u ''chiffon-blouse'']),
      (u ''sweater'',
        [[0x6BDB, 0x8863], [0x9488, 0x7EC7, 0x886B], u ''pullover'', u ''sweater'',
          u ''knit-sweater'', u ''cardigan-sweater'']),
      (u ''hoodie'',
        [[0x536B, 0x8863], [0x8FDE, 0x5E3D, 0x886B], [0x5957, 0x5934, 0x886B], u ''hoodie'',
          u ''hooded-sweatshirt'', u ''sweatshirt'']),
      (u ''cardigan'',
        [[0x5F00, 0x886B], [0x5F00, 0x895F, 0x886B], u ''cardigan'']),
      (u ''jacket'',
        [[0x5939, 0x514B], [0x5916, 0x5957], [0x77ED, 0x5916, 0x5957], u ''jacket'',
          u ''bomber-jacket'', u ''denim-jacket'', u ''leather-jacket'']),
      (u ''coat'',
        [[0x5927, 0x8863], [0x98CE, 0x8863], [0x6BDB, 0x5462, 0x5927, 0x8863],
          [0x7F8A, 0x6BDB, 0x5927, 0x8863], u ''coat'', u ''trench-coat'', u ''wool-coat'',
          u ''overcoat'']),
      (u ''blazer'',
        [[0x897F, 0x88C5, 0x5916, 0x5957], [0x5C0F, 0x897F, 0x88C5], u ''blazer'',
          u ''sport-coat'']),
      (u ''suit'',
        [[0x897F, 0x88C5], [0x5957, 0x88C5], [0x6B63, 0x88C5], u ''suit'',
          u ''business-suit'', u ''formal-suit'']),
      (u ''vest'',
        [[0x80CC, 0x5FC3], [0x9A6C, 0x7532], u ''vest'', u ''waistcoat'']),
      (u ''jumpsuit'',
        [[0x8FDE, 0x4F53, 0x88E4], [0x8FDE, 0x8EAB, 0x8863], u ''jumpsuit'', u ''romper'',
          u ''onesie'']),
      (u ''romper'',
        [[0x8FDE, 0x4F53, 0x77ED, 0x88E4], u ''romper'']),
      (u ''leggings'',
        [[0x6253, 0x5E95, 0x88E4], u ''leggings'', u ''yoga-pants'']),
      (u ''sweatpants'',
        [[0x8FD0, 0x52A8, 0x88E4], u ''sweatpants'', u ''joggers'']),
      (u ''pajamas'',
        [[0x7761, 0x8863], u ''pajamas'', u ''pjs'', u ''sleepwear''])]"

text \<open>Shoes.\<close>

definition shoes :: entries where
  "shoes =
     [(u ''sneakers'',
        [[0x8FD0, 0x52A8, 0x978B], [0x4F11, 0x95F2, 0x978B], [0x677F, 0x978B], u ''sneaker'',
          u ''trainer'']),
      (u ''running-shoes'',
        [[0x8DD1, 0x978B], [0x8DD1, 0x6B65, 0x978B], [0x6162, 0x8DD1, 0x978B]]),
      (u ''boots'',
        [[0x9774, 0x5B50], [0x9774], [0x957F, 0x9774], [0x77ED, 0x9774],
          [0x9A6C, 0x4E01, 0x9774], [0x5207, 0x5C14, 0x897F, 0x9774], u ''snow-boots'']),
      (u ''ankle-boots'',
        [[0x77ED, 0x9774], [0x8E1D, 0x9774]]),
      (u ''heels'',
        [[0x9AD8, 0x8DDF, 0x978B], [0x9AD8, 0x8DDF], u ''stiletto'', u ''pumps'']),
      (u ''stilettos'',
        [[0x7EC6, 0x9AD8, 0x8DDF], [0x7EC6, 0x8DDF]]),
      (u ''flats'',
        [[0x5E73, 0x5E95, 0x978B], [0x5E73, 0x5E95], u ''ballet'']),
      (u ''sandals'',
        [[0x51C9, 0x978B], [0x51C9, 0x978B], u ''sandals'']),
      (u ''slippers'',
        [[0x62D6, 0x978B], [0x62D6, 0x978B]]),
      (u ''loafers'',
        [[0x4E50, 0x798F, 0x978B], [0x8C46, 0x8C46, 0x978B], u ''loafer'']),
      (u ''oxfords'',
        [[0x725B, 0x6D25, 0x978B]]),
      (u ''derby'',
        [[0x5FB7, 0x6BD4, 0x978B]]),
      (u ''canvas-shoes'',
        [[0x5E06, 0x5E03, 0x978B]])]"

text \<open>Bags.\<close>

definition bags :: entries where
  "bags =
     [(u ''handbag'',
        [[0x624B, 0x63D0, 0x5305], [0x62CE, 0x5305], u ''handbag'']),
      (u ''shoulder-bag'',
        [[0x5355, 0x80A9, 0x5305], [0x80A9, 0x5305], [0x659C, 0x630E, 0x5305]]),
      (u ''crossbody-bag'',
        [[0x659C, 0x630E, 0x5305], [0x8DE8, 0x5305]]),
      (u ''backpack'',
        [[0x53CC, 0x80A9, 0x5305], [0x80CC, 0x5305], [0x4E66, 0x5305]]),
      (u ''tote-bag'',
        [[0x6258, 0x7279, 0x5305], u ''tote'', [0x5927, 0x5BB9, 0x91CF, 0x5305]]),
      (u ''clutch'',
        [[0x624B, 0x62FF, 0x5305], [0x665A, 0x5BB4, 0x5305], u ''clutch'']),
      (u ''wallet'',
        [[0x94B1, 0x5305], [0x76AE, 0x5939], [0x957F, 0x6B3E, 0x94B1, 0x5305],
          [0x77ED, 0x6B3E, 0x94B1, 0x5305]]),
      (u ''purse'',
        [[0x96F6, 0x94B1, 0x5305], [0x5C0F, 0x5305]]),
      (u ''belt-bag'',
        [[0x8170, 0x5305], [0x80F8, 0x5305]]),
      (u ''messenger-bag'',
        [[0x90AE, 0x5DEE, 0x5305], [0x4FE1, 0x4F7F, 0x5305]]),
      (u ''backpack-purse'',
        [[0x53CC, 0x80A9, 0x5305], [0x80CC, 0x5305]])]"

text \<open>Jewellery.\<close>

definition jewelry :: entries where
  "jewelry =
     [(u ''necklace'',
        [[0x9879, 0x94FE], [0x540A, 0x5760], u ''pendant'', u ''chain'']),
      (u ''choker'',
        [[0x9888, 0x94FE], u ''choker'']),
      (u ''earrings'',
        [[0x8033, 0x73AF], [0x8033, 0x9489], u ''earring'', u ''stud'']),
      (u ''drop-earrings'',
        [[0x8033, 0x5760], [0x957F, 0x8033, 0x73AF]]),
      (u ''bracelet'',
        [[0x624B, 0x94FE], [0x624B, 0x956F], u ''bracelet'']),
      (u ''bangle'',
        [[0x624B, 0x956F], [0x786C, 0x624B, 0x956F]]),
      (u ''ring'',
        [[0x6212, 0x6307], [0x6307, 0x73AF], u ''wedding-ring'', u ''engagement-ring'']),
      (u ''brooch'',
        [[0x80F8, 0x9488], [0x80F8, 0x82B1]]),
      (u ''watch'',
        [[0x624B, 0x8868], [0x8155, 0x8868], [0x667A, 0x80FD, 0x624B, 0x8868]]),
      (u ''anklet'',
        [[0x811A, 0x94FE]])]"

text \<open>Accessories.\<close>

definition accessories :: entries where
  "accessories =
     [(u ''belt'',
        [[0x8170, 0x5E26], [0x76AE, 0x5E26], [0x76AE, 0x5E26]]),
      (u ''scarf'',
        [[0x56F4, 0x5DFE], [0x4E1D, 0x5DFE], [0x7F8A, 0x7ED2, 0x56F4, 0x5DFE]]),
      (u ''hat'',
        [[0x5E3D, 0x5B50], [0x9E2D, 0x820C, 0x5E3D], u ''cap'', [0x793C, 0x5E3D]]),
      (u ''beanie'',
        [[0x9488, 0x7EC7, 0x5E3D], [0x51B7, 0x5E3D], [0x6BDB, 0x7EBF, 0x5E3D]]),
      (u ''gloves'',
        [[0x624B, 0x5957], [0x76AE, 0x624B, 0x5957], [0x9488, 0x7EC7, 0x624B, 0x5957]]),
      (u ''sunglasses'',
        [[0x592A, 0x9633, 0x955C], [0x58A8, 0x955C], u ''sunglasses'']),
      (u ''eyeglasses'',
        [[0x773C, 0x955C], [0x5149, 0x5B66, 0x955C], u ''frame'']),
      (u ''tie'',
        [[0x9886, 0x5E26], u ''necktie'']),
      (u ''bow-tie'',
        [[0x9886, 0x7ED3]]),
      (u ''hair-accessory'',
        [[0x53D1, 0x9970], [0x53D1, 0x5939], [0x53D1, 0x7B8D]])]"

text \<open>Electronics.\<close>

definition electronics :: entries where
  "electronics =
     [(u ''smartphone'',
        [[0x667A, 0x80FD, 0x624B, 0x673A], [0x624B, 0x673A], u ''iphone'', u ''android'']),
      (u ''phone'',
        [[0x624B, 0x673A], [0x79FB, 0x52A8, 0x7535, 0x8BDD]]),
      (u ''laptop'',
        [[0x7B14, 0x8BB0, 0x672C, 0x7535, 0x8111], [0x7B14, 0x8BB0, 0x672C], u ''laptop'',
          u ''macbook'']),
      (u ''tablet'',
        [[0x5E73, 0x677F, 0x7535, 0x8111], [0x5E73, 0x677F], u ''ipad'', u ''tablet'']),
      (u ''headphones'',
        [[0x5934, 0x6234, 0x5F0F, 0x8033, 0x673A], [0x8033, 0x673A], u ''headphones'',
          u ''over-ear'']),
      (u ''earbuds'',
        [[0x5165, 0x8033, 0x5F0F, 0x8033, 0x673A], [0x8033, 0x585E], u ''earbuds'',
          u ''airpods'']),
      (u ''speaker'',
        [[0x97F3, 0x7BB1], [0x626C, 0x58F0, 0x5668], [0x97F3, 0x54CD],
          [0x84DD, 0x7259, 0x97F3, 0x7BB1]]),
      (u ''camera'',
        [[0x76F8, 0x673A], [0x6444, 0x50CF, 0x673A], [0x5355, 0x53CD], [0x5FAE, 0x5355],
          u ''dslr'']),
      (u ''smartwatch'',
        [[0x667A, 0x80FD, 0x624B, 0x8868], [0x667A, 0x80FD, 0x624B, 0x73AF]]),
      (u ''keyboard'',
        [[0x952E, 0x76D8], [0x673A, 0x68B0, 0x952E, 0x76D8]]),
      (u ''mouse'',
        [[0x9F20, 0x6807], [0x65E0, 0x7EBF, 0x9F20, 0x6807]]),
      (u ''charger'',
        [[0x5145, 0x7535, 0x5668], [0x5145, 0x7535, 0x5934]]),
      (u ''cable'',
        [[0x6570, 0x636E, 0x7EBF], [0x5145, 0x7535, 0x7EBF], [0x8FDE, 0x63A5, 0x7EBF]]),
      (u ''case'',
        [[0x624B, 0x673A, 0x58F3], [0x4FDD, 0x62A4, 0x58F3], u ''case'', u ''cover''])]"

text \<open>Home appliances.\<close>

definition home :: entries where
  "home =
     [(u ''coffee-maker'',
        [[0x5496, 0x5561, 0x673A], [0x5496, 0x5561, 0x58F6], u ''espresso'']),
      (u ''coffee-grinder'',
        [[0x78E8, 0x8C46, 0x673A], [0x7814, 0x78E8, 0x673A], [0x78E8, 0x5496, 0x5561]]),
      (u ''kettle'',
        [[0x7535, 0x6C34, 0x58F6], [0x70E7, 0x6C34, 0x58F6], [0x6C34, 0x58F6]]),
      (u ''blender'',
        [[0x6405, 0x62CC, 0x673A], [0x69A8, 0x6C41, 0x673A], [0x7834, 0x58C1, 0x673A]]),
      (u ''toaster'',
        [[0x70E4, 0x9762, 0x5305, 0x673A], [0x591A, 0x58EB, 0x7089]]),
      (u ''microwave'',
        [[0x5FAE, 0x6CE2, 0x7089]]),
      (u ''air-fryer'',
        [[0x7A7A, 0x6C14, 0x70B8, 0x9505], [0x70B8, 0x9505]]),
      (u ''rice-cooker'',
        [[0x7535, 0x996D, 0x7172], [0x7535, 0x996D, 0x9505]]),
      (u ''mixer'',
        [[0x53A8, 0x5E08, 0x673A], [0x548C, 0x9762, 0x673A]]),
      (u ''vacuum'',
        [[0x5438, 0x5C18, 0x5668], [0x626B, 0x5730, 0x673A]]),
      (u ''lamp'',
        [[0x53F0, 0x706F], [0x843D, 0x5730, 0x706F], [0x540A, 0x706F], [0x706F, 0x5177]]),
      (u ''bulb'',
        [[0x706F, 0x6CE1], [0x7167, 0x660E]]),
      (u ''fan'',
        [[0x98CE, 0x6247], [0x7535, 0x98CE, 0x6247], [0x53F0, 0x6247]]),
      (u ''heater'',
        [[0x53D6, 0x6696, 0x5668], [0x7535, 0x6696, 0x5668]]),
      (u ''humidifier'',
        [[0x52A0, 0x6E7F, 0x5668]]),
      (u ''dehumidifier'',
        [[0x9664, 0x6E7F, 0x673A]]),
      (u ''purifier'',
        [[0x51C0, 0x5316, 0x5668], [0x7A7A, 0x6C14, 0x51C0, 0x5316, 0x5668]])]"

text \<open>Furniture.\<close>

definition furniture :: entries where
  "furniture =
     [(u ''sofa'',
        [[0x6C99, 0x53D1], [0x771F, 0x76AE, 0x6C99, 0x53D1], [0x5E03, 0x827A, 0x6C99, 0x53D1],
          u ''couch'']),
      (u ''chair'',
        [[0x6905, 0x5B50], [0x9910, 0x6905], [0x529E, 0x516C, 0x6905], u ''armchair'',
          [0x4F11, 0x95F2, 0x6905]]),
      (u ''table'',
        [[0x684C, 0x5B50], [0x9910, 0x684C], [0x4E66, 0x684C], u ''coffee-table'',
          [0x8336, 0x51E0]]),
      (u ''desk'',
        [[0x4E66, 0x684C], [0x529E, 0x516C, 0x684C], [0x5199, 0x5B57, 0x53F0]]),
      (u ''bed'',
        [[0x5E8A], [0x53CC, 0x4EBA, 0x5E8A], [0x5355, 0x4EBA, 0x5E8A], [0x5E8A, 0x67B6]]),
      (u ''mattress'',
        [[0x5E8A, 0x57AB], [0x5F39, 0x7C27, 0x5E8A, 0x57AB]]),
      (u ''cabinet'',
        [[0x67DC, 0x5B50], [0x50A8, 0x7269, 0x67DC], [0x7535, 0x89C6, 0x67DC], u ''sideboard'']),
      (u ''shelf'',
        [[0x67B6, 0x5B50], [0x4E66, 0x67B6], [0x7F6E, 0x7269, 0x67B6]]),
      (u ''wardrobe'',
        [[0x8863, 0x67DC], [0x8863, 0x6A71]]),
      (u ''drawer'',
        [[0x62BD, 0x5C49], [0x5E8A, 0x5934, 0x67DC], u ''bedside-table''])]"

text \<open>Kitchenware.\<close>

definition kitchen :: entries where
  "kitchen =
     [(u ''cookware'',
        [[0x9505, 0x5177], [0x7092, 0x9505], [0x6C64, 0x9505], [0x5E73, 0x5E95, 0x9505]]),
      (u ''knife'',
        [[0x5200, 0x5177], [0x83DC, 0x5200], u ''chef-knife'']),
      (u ''cutting-board'',
        [[0x7827, 0x677F], [0x5207, 0x83DC, 0x677F]]),
      (u ''dinnerware'',
        [[0x9910, 0x5177], [0x7897, 0x789F], [0x76D8, 0x5B50], u ''plate'']),
      (u ''flatware'',
        [[0x5200, 0x53C9], [0x52FA, 0x5B50], u ''cutlery'']),
      (u ''glassware'',
        [[0x73BB, 0x7483, 0x676F], [0x6C34, 0x676F], [0x9152, 0x676F]]),
      (u ''storage'',
        [[0x6536, 0x7EB3, 0x76D2], [0x4FDD, 0x9C9C, 0x76D2], [0x50A8, 0x7269, 0x7F50]])]"

text \<open>Beauty.\<close>

definition beauty :: entries where
  "beauty =
     [(u ''foundation'',
        [[0x7C89, 0x5E95, 0x6DB2], [0x7C89, 0x5E95], [0x5E95, 0x5986]]),
      (u ''lipstick'',
        [[0x53E3, 0x7EA2], [0x5507, 0x818F], u ''lipstick'', u ''liquid-lipstick'']),
      (u ''lip-gloss'',
        [[0x5507, 0x91C9], [0x5507, 0x871C], u ''lip-gloss'']),
      (u ''mascara'',
        [[0x776B, 0x6BDB, 0x818F], u ''mascara'']),
      (u ''eyeliner'',
        [[0x773C, 0x7EBF, 0x7B14], [0x773C, 0x7EBF]]),
      (u ''eyeshadow'',
        [[0x773C, 0x5F71], u ''palette'']),
      (u ''skincare'',
        [[0x62A4, 0x80A4], [0x62A4, 0x80A4, 0x54C1], [0x62A4, 0x80A4, 0x5957, 0x88C5]]),
      (u ''serum'',
        [[0x7CBE, 0x534E, 0x6DB2], [0x7CBE, 0x534E], u ''serum'']),
      (u ''moisturizer'',
        [[0x9762, 0x971C], [0x4E73, 0x6DB2], [0x4FDD, 0x6E7F, 0x971C]]),
      (u ''cleanser'',
        [[0x6D01, 0x9762], [0x6D17, 0x9762, 0x5976], [0x6D01, 0x9762, 0x4E73]]),
      (u ''toner'',
        [[0x723D, 0x80A4, 0x6C34], [0x5316, 0x5986, 0x6C34], [0x6C34]]),
      (u ''mask'',
        [[0x9762, 0x819C], u ''face-mask'']),
      (u ''perfume'',
        [[0x9999, 0x6C34], u ''fragrance'', u ''cologne'']),
      (u ''makeup-brush'',
        [[0x5316, 0x5986, 0x5237], [0x7F8E, 0x5986, 0x86CB], [0x5DE5, 0x5177]])]"

text \<open>Sports.\<close>

definition sports :: entries where
  "sports =
     [(u ''yoga-mat'',
        [[0x745C, 0x4F3D, 0x57AB], [0x5065, 0x8EAB, 0x57AB]]),
      (u ''dumbbell'',
        [[0x54D1, 0x94C3], [0x58F6, 0x94C3]]),
      (u ''resistance-band'',
        [[0x5F39, 0x529B, 0x5E26], [0x62C9, 0x529B, 0x5668]]),
      (u ''tent'',
        [[0x5E10, 0x7BF7], [0x9732, 0x8425, 0x5E10, 0x7BF7]]),
      (u ''sleeping-bag'',
        [[0x7761, 0x888B]]),
      (u ''backpack'',
        [[0x767B, 0x5C71, 0x5305], [0x65C5, 0x884C, 0x5305], u ''hiking-backpack'']),
      (u ''water-bottle'',
        [[0x6C34, 0x58F6], [0x8FD0, 0x52A8, 0x6C34, 0x58F6]])]"

text \<open>Baby.\<close>

definition baby :: entries where
  "baby =
     [(u ''diaper'',
        [[0x5C3F, 0x5E03], [0x7EB8, 0x5C3F, 0x88E4], u ''diaper'']),
      (u ''baby-clothes'',
        [[0x7AE5, 0x88C5], [0x5A74, 0x513F, 0x88C5], u ''baby-clothes'']),
      (u ''stroller'',
        [[0x5A74, 0x513F, 0x8F66], [0x63A8, 0x8F66]]),
      (u ''baby-carrier'',
        [[0x5A74, 0x513F, 0x80CC, 0x5E26], [0x8170, 0x51F3]]),
      (u ''baby-bottle'',
        [[0x5976, 0x74F6], [0x6C34, 0x676F]]),
      (u ''pacifier'',
        [[0x5976, 0x5634], [0x5B89, 0x629A, 0x5976, 0x5634]]),
      (u ''toy'',
        [[0x73A9, 0x5177], [0x76CA, 0x667A, 0x73A9, 0x5177], u ''plush-toy''])]"

text \<open>Pet.\<close>

definition pet :: entries where
  "pet =
     [(u ''pet-bed'',
        [[0x5BA0, 0x7269, 0x5E8A], [0x732B, 0x7A9D], [0x72D7, 0x7A9D]]),
      (u ''pet-food'',
        [[0x5BA0, 0x7269, 0x7CAE], [0x732B, 0x7CAE], [0x72D7, 0x7CAE]]),
      (u ''pet-toy'',
        [[0x5BA0, 0x7269, 0x73A9, 0x5177], [0x732B, 0x73A9, 0x5177], [0x72D7, 0x73A9, 0x5177]]),
      (u ''leash'',
        [[0x7275, 0x5F15, 0x7EF3], [0x72D7, 0x7EF3]]),
      (u ''collar'',
        [[0x9879, 0x5708], u ''pet-collar'']),
      (u ''litter-box'',
        [[0x732B, 0x7802, 0x76C6]])]"

text \<open>Scenes.\<close>

definition scenes :: entries where
  "scenes =
     [(u ''office'',
        [[0x529E, 0x516C], [0x529E, 0x516C, 0x5BA4], u ''work'']),
      (u ''home'',
        [[0x5BB6, 0x5C45], [0x5BB6, 0x7528], u ''home'']),
      (u ''outdoor'',
        [[0x6237, 0x5916], [0x65C5, 0x884C], u ''travel'']),
      (u ''party'',
        [[0x6D3E, 0x5BF9], [0x665A, 0x5BB4], u ''party'']),
      (u ''wedding'',
        [[0x5A5A, 0x793C], [0x5A5A, 0x5E86], u ''wedding'']),
      (u ''casual'',
        [[0x65E5, 0x5E38], [0x4F11, 0x95F2], u ''casual'']),
      (u ''business'',
        [[0x5546, 0x52A1], [0x6B63, 0x5F0F], u ''business''])]"

text \<open>Seasons.\<close>

definition seasons :: entries where
  "seasons =
     [(u ''spring'',
        [[0x6625], [0x6625, 0x5B63], u ''spring'']),
      (u ''summer'',
        [[0x590F], [0x590F, 0x5B63], u ''summer'']),
      (u ''autumn'',
        [[0x79CB], [0x79CB, 0x5B63], u ''autumn'', u ''fall'']),
      (u ''winter'',
        [[0x51AC], [0x51AC, 0x5B63], u ''winter'']),
      (u ''all-season'',
        [[0x56DB, 0x5B63], [0x5168, 0x5E74], u ''all-season''])]"

text \<open>Sizes.\<close>

definition sizes :: entries where
  "sizes =
     [(u ''mini'',
        [[0x8FF7, 0x4F60], [0x5C0F, 0x578B], u ''mini'', [0x5C0F, 0x53F7]]),
      (u ''small'',
        [[0x5C0F], u ''sm'', u ''s'']),
      (u ''medium'',
        [[0x4E2D], u ''m'', u ''md'']),
      (u ''large'',
        [[0x5927], u ''l'', u ''lg'']),
      (u ''xlarge'',
        [[0x7279, 0x5927], u ''xl'', [0x52A0, 0x5927]]),
      (u ''plus-size'',
        [[0x52A0, 0x80A5], [0x5927, 0x7801], u ''plus'']),
      (u ''oversized'',
        [[0x5BBD, 0x677E], [0x5927, 0x7248, 0x578B]])]"

text \<open>
  The earlier copy of the classifier, \<open>src/utils/imageClassifier.ts\<close>, has the same tables
  but for these three.
\<close>

text \<open>Colours, earlier copy.\<close>

definition colors_v1 :: entries where
  "colors_v1 =
     [(u ''red'',
        [[0x7EA2], [0x7EA2, 0x8272], [0x8D64], [0x6731, 0x7EA2], [0x7EEF, 0x7EA2]]),
      (u ''blue'',
        [[0x84DD], [0x84DD, 0x8272], [0x6E5B, 0x84DD], [0x5929, 0x84DD], [0x5B9D, 0x84DD]]),
      (u ''green'',
        [[0x7EFF], [0x7EFF, 0x8272], [0x7FE0, 0x7EFF], [0x58A8, 0x7EFF], [0x8349, 0x7EFF]]),
      (u ''yellow'',
        [[0x9EC4], [0x9EC4, 0x8272], [0x91D1, 0x9EC4], [0x6A59, 0x9EC4],
          [0x67E0, 0x6AAC, 0x9EC4]]),
      (u ''black'',
        [[0x9ED1], [0x9ED1, 0x8272], [0x7384], [0x58A8, 0x9ED1], [0x4E4C, 0x9ED1]]),
      (u ''white'',
        [[0x767D], [0x767D, 0x8272], [0x7EAF, 0x767D], [0x8C61, 0x7259, 0x767D],
          [0x96EA, 0x767D]]),
      (u ''gray'',
        [[0x7070], [0x7070, 0x8272], [0x70AD, 0x7070], [0x94F6, 0x7070], [0x6D45, 0x7070]]),
      (u ''pink'',
        [[0x7C89], [0x7C89, 0x8272], [0x6843, 0x7EA2], [0x73AB, 0x7EA2], [0x7C89, 0x7EA2]]),
      (u ''purple'',
        [[0x7D2B], [0x7D2B, 0x8272], [0x7D2B, 0x7F57, 0x5170], [0x85B0, 0x8863, 0x8349]]),
      (u ''orange'',
        [[0x6A59], [0x6A59, 0x8272], [0x6A58, 0x8272], [0x6A58, 0x7EA2]]),
      (u ''brown'',
        [[0x68D5], [0x68D5, 0x8272], [0x8910, 0x8272], [0x5496, 0x5561, 0x8272],
          [0x5361, 0x5176]]),
      (u ''beige'',
        [[0x7C73, 0x8272], [0x7C73, 0x767D], [0x674F, 0x8272], [0x5361, 0x5176]]),
      (u ''gold'',
        [[0x91D1], [0x91D1, 0x8272], [0x9EC4, 0x91D1], [0x91D1, 0x5C5E, 0x8272]]),
      (u ''silver'',
        [[0x94F6], [0x94F6, 0x8272], [0x91D1, 0x5C5E, 0x94F6]]),
      (u ''multicolor'',
        [[0x5F69], [0x591A, 0x5F69], [0x62FC, 0x8272], [0x6E10, 0x53D8], [0x82B1, 0x8272]])]"

text \<open>Materials, earlier copy.\<close>

definition materials_v1 :: entries where
  "materials_v1 =
     [(u ''leather'',
        [[0x76AE], [0x76AE, 0x9769], [0x771F, 0x76AE], [0x725B, 0x76AE], [0x7F8A, 0x76AE]]),
      (u ''canvas'',
        [[0x5E06, 0x5E03], u ''canvas'']),
      (u ''cotton'',
        [[0x68C9], [0x7EAF, 0x68C9], [0x68C9, 0x8D28]]),
      (u ''silk'',
        [[0x4E1D], [0x4E1D, 0x7EF8], [0x771F, 0x4E1D], [0x7F0E, 0x9762]]),
      (u ''wool'',
        [[0x7F8A, 0x6BDB], [0x6BDB], [0x7ED2]]),
      (u ''denim'',
        [[0x4E39, 0x5B81], [0x725B, 0x4ED4, 0x5E03]]),
      (u ''linen'',
        [[0x4E9A, 0x9EBB], [0x9EBB]]),
      (u ''velvet'',
        [[0x5929, 0x9E45, 0x7ED2], [0x7ED2, 0x5E03], u ''velvet'']),
      (u ''lace'',
        [[0x857E, 0x4E1D], [0x9542, 0x7A7A]]),
      (u ''knit'',
        [[0x9488, 0x7EC7], [0x7F16, 0x7EC7]]),
      (u ''metal'',
        [[0x91D1, 0x5C5E], [0x5408, 0x91D1], [0x4E0D, 0x9508, 0x94A2]]),
      (u ''wood'',
        [[0x6728], [0x6728, 0x8D28], [0x5B9E, 0x6728]]),
      (u ''ceramic'',
        [[0x9676, 0x74F7], [0x74F7]]),
      (u ''glass'',
        [[0x73BB, 0x7483], [0x94A2, 0x5316, 0x73BB, 0x7483]]),
      (u ''plastic'',
        [[0x5851, 0x6599], [0x5851, 0x80F6]])]"

text \<open>Clothing, earlier copy.\<close>

definition clothing_v1 :: entries where
  "clothing_v1 =
     [(u ''dress'',
        [[0x8FDE, 0x8863, 0x88D9], [0x88D9, 0x88C5], [0x793C, 0x670D, 0x88D9],
          [0x665A, 0x793C, 0x670D], [0x5A5A, 0x7EB1, 0x88D9], u ''tea-dress'', u ''maxi-dress'']),
      (u ''skirt'',
        [[0x534A, 0x8EAB, 0x88D9], [0x77ED, 0x88D9], [0x957F, 0x88D9],
          u ''a'' @ [0x5B57, 0x88D9], [0x767E, 0x8936, 0x88D9], [0x5305, 0x81C0, 0x88D9]]),
      (u ''pants'',
        [[0x88E4, 0x5B50], [0x957F, 0x88E4], [0x4F11, 0x95F2, 0x88E4],
          [0x76F4, 0x7B52, 0x88E4], [0x9614, 0x817F, 0x88E4], [0x5C0F, 0x811A, 0x88E4]]),
      (u ''jeans'',
        [[0x725B, 0x4ED4, 0x88E4], [0x725B, 0x4ED4, 0x88E4], u ''denim'', [0x4E39, 0x5B81]]),
      (u ''shorts'',
        [[0x77ED, 0x88E4], [0x70ED, 0x88E4]]),
      (u ''t-shirt'',
        [u ''t'' @ [0x6064], u ''tshirt'', u ''t-shirt'', [0x77ED, 0x8896], [0x4F53, 0x6064]]),
      (u ''shirt'',
        [[0x886C, 0x886B], [0x957F, 0x8896], u ''top'', [0x4E0A, 0x8863]]),
      (u ''blouse'',
        [[0x5973, 0x886B], [0x5973, 0x58EB, 0x886C, 0x886B], [0x96EA, 0x7EBA, 0x886B]]),
      (u ''sweater'',
        [[0x6BDB, 0x8863], [0x9488, 0x7EC7, 0x886B], u ''pullover'']),
      (u ''hoodie'',
        [[0x536B, 0x8863], [0x8FDE, 0x5E3D, 0x886B], [0x5957, 0x5934, 0x886B]]),
      (u ''cardigan'',
        [[0x5F00, 0x886B], [0x5F00, 0x895F, 0x886B]]),
      (u ''jacket'',
        [[0x5939, 0x514B], [0x5916, 0x5957], [0x77ED, 0x5916, 0x5957]]),
      (u ''coat'',
        [[0x5927, 0x8863], [0x98CE, 0x8863], [0x6BDB, 0x5462, 0x5927, 0x8863],
          [0x7F8A, 0x6BDB, 0x5927, 0x8863]]),
      (u ''blazer'',
        [[0x897F, 0x88C5, 0x5916, 0x5957], [0x5C0F, 0x897F, 0x88C5]]),
      (u ''suit'',
        [[0x897F, 0x88C5], [0x5957, 0x88C5], [0x6B63, 0x88C5]]),
      (u ''vest'',
        [[0x80CC, 0x5FC3], [0x9A6C, 0x7532]]),
      (u ''jumpsuit'',
        [[0x8FDE, 0x4F53, 0x88E4], [0x8FDE, 0x8EAB, 0x8863]]),
      (u ''romper'',
        [[0x8FDE, 0x4F53, 0x77ED, 0x88E4]])]"


section \<open>Matching in the classifier\<close>

text \<open>\<open>s.startsWith(p)\<close> and \<open>s.includes(p)\<close>.\<close>

fun startsWith :: "jsstring \<Rightarrow> jsstring \<Rightarrow> bool" where
  "startsWith s [] = True"
| "startsWith [] (p # ps) = False"
| "startsWith (c # cs) (p # ps) = (if c = p then startsWith cs ps else False)"

fun includesStr :: "jsstring \<Rightarrow> jsstring \<Rightarrow> bool" where
  "includesStr [] p = (p = [])"
| "includesStr (c # cs) p = (if startsWith (c # cs) p then True else includesStr cs p)"

text \<open>The class \<open>[-_\s]\<close>.\<close>

definition isSep :: "jschar \<Rightarrow> bool" where
  "isSep c \<longleftrightarrow> c = hyphen \<or> c = 0x5F \<or> isWhiteSpace c"

text \<open>The class \<open>\w\<close>.\<close>

definition isWordChar :: "jschar \<Rightarrow> bool" where
  "isWordChar c \<longleftrightarrow> isLowerAZ c \<or> isUpperAZ c \<or> isDigit c \<or> c = 0x5F"

text \<open>
  \<open>s.replace(/R$/, '')\<close> for a pattern \<open>R\<close> that must reach the end of the string: the
  match starts at the leftmost position whose whole remainder matches \<open>R\<close>, and is removed.
  \<open>M\<close> tells whether a remainder matches \<open>R\<close>.
\<close>

fun dropMatchingSuffix :: "(jsstring \<Rightarrow> bool) \<Rightarrow> jsstring \<Rightarrow> jsstring" where
  "dropMatchingSuffix M [] = []"
| "dropMatchingSuffix M (c # cs) = (if M (c # cs) then [] else c # dropMatchingSuffix M cs)"

text \<open>
  Comparison of two code units under the \<open>i\<close> flag. The patterns of the sources hold only
  ASCII and CJK code units, and no code unit outside ASCII is canonicalized to one of
  those, so upper-casing \<open>a-z\<close> decides the comparison.
\<close>

definition canon :: "jschar \<Rightarrow> jschar" where
  "canon c = (if isLowerAZ c then c - 0x20 else c)"

text \<open>\<open>/\.(jpg|jpeg|png|gif|webp|heic|heif)$/i\<close> on a remainder.\<close>

definition isImageExtension :: "jsstring \<Rightarrow> bool" where
  "isImageExtension s =
     (case s of
        [] \<Rightarrow> False
      | c # cs \<Rightarrow> c = 0x2E \<and>
          map canon cs \<in> set (map (map canon)
            [u ''jpg'', u ''jpeg'', u ''png'', u ''gif'', u ''webp'', u ''heic'', u ''heif'']))"

text \<open>\<open>/[-_\s]*\d{4,}$/\<close> on a remainder.\<close>

definition isLongDigitSuffix :: "jsstring \<Rightarrow> bool" where
  "isLongDigitSuffix s =
     (let r = dropWhile isSep s in length r \<ge> 4 \<and> list_all isDigit r)"

text \<open>
  \<open>/[-_\s]*\([^)]*\)$/\<close> and \<open>/[-_\s]*\[[^\]]*\]$/\<close> on a remainder, for the opening and
  the closing bracket.
\<close>

definition isBracketSuffix :: "jschar \<Rightarrow> jschar \<Rightarrow> jsstring \<Rightarrow> bool" where
  "isBracketSuffix opening closing s =
     (case dropWhile isSep s of
        [] \<Rightarrow> False
      | c # cs \<Rightarrow> c = opening \<and> cs \<noteq> [] \<and> last cs = closing \<and> closing \<notin> set (butlast cs))"

definition prefixes :: "jsstring list" where
  "prefixes =
     [u ''img_'', u ''image_'', u ''photo_'', u ''pic_'', u ''picture_'', u ''dsc_'',
      u ''dscn'', u ''dscf'', u ''dsc_'', u ''img'', u ''photo'', u ''pic'', u ''p'',
      u ''wp_'', u ''wp'', u ''snap'', u ''snapshot'', u ''capture'', u ''screenshot'',
      u ''screen'', u ''wechat'', u ''wx_'', u ''qq_'', u ''alipay_'', u ''taobao_'',
      u ''export_'', u ''export'', u ''output_'', u ''output'', u ''untitled'', u ''new'',
      u ''copy'', u ''copy of'', [0x526F, 0x672C], [0x65B0, 0x5EFA], u ''2024'', u ''2023'',
      u ''2025'', u ''2022'', u ''2021'', u ''2020'', u ''01'', u ''02'', u ''03'', u ''04'',
      u ''05'', u ''06'', u ''07'', u ''08'', u ''09'', u ''10'', u ''11'', u ''12'']"

text \<open>One pass of the loop over \<open>prefixes\<close> in \<open>cleanFileName\<close>.\<close>

definition stripPrefix :: "jsstring \<Rightarrow> jsstring \<Rightarrow> jsstring" where
  "stripPrefix cleaned prefix =
     (if startsWith cleaned prefix
      then dropWhile isSep (trim (drop (length prefix) cleaned))
      else cleaned)"

definition cleanFileName :: "jsstring \<Rightarrow> jsstring" where
  "cleanFileName fileName =
     (let cleaned = toLowerCase fileName;
          cleaned = dropMatchingSuffix isImageExtension cleaned;
          cleaned = foldl stripPrefix cleaned prefixes;
          cleaned = dropMatchingSuffix isLongDigitSuffix cleaned;
          cleaned = dropMatchingSuffix (isBracketSuffix 0x28 0x29) cleaned;
          cleaned = dropMatchingSuffix (isBracketSuffix 0x5B 0x5D) cleaned
      in trim (replaceRuns isSep [0x20] cleaned))"

text \<open>
  The tests of the colour, material and clothing loops build a regular expression from the
  pattern \<open>p\<close>. No pattern of the tables holds a character that is special in a regular
  expression, so \<open>p\<close> matches itself, under the \<open>i\<close> flag.
\<close>

fun ciStartsWith :: "jsstring \<Rightarrow> jsstring \<Rightarrow> bool" where
  "ciStartsWith s [] = True"
| "ciStartsWith [] (p # ps) = False"
| "ciStartsWith (c # cs) (p # ps) = (if canon c = canon p then ciStartsWith cs ps else False)"

fun ciIncludes :: "jsstring \<Rightarrow> jsstring \<Rightarrow> bool" where
  "ciIncludes [] p = (p = [])"
| "ciIncludes (c # cs) p = (if ciStartsWith (c # cs) p then True else ciIncludes cs p)"

text \<open>
  \<open>p.replace(/[-_]/g, '[-_]?')\<close> at the start of \<open>s\<close>: a hyphen or underscore of the
  pattern may be matched by a hyphen or underscore, or by nothing.
\<close>

fun ciStartsWithOptSep :: "jsstring \<Rightarrow> jsstring \<Rightarrow> bool" where
  "ciStartsWithOptSep s [] = True"
| "ciStartsWithOptSep s (p # ps) =
     (if p = hyphen \<or> p = 0x5F
      then (case s of
              [] \<Rightarrow> ciStartsWithOptSep [] ps
            | c # cs \<Rightarrow>
                if (c = hyphen \<or> c = 0x5F) \<and> ciStartsWithOptSep cs ps then True
                else ciStartsWithOptSep s ps)
      else (case s of
              [] \<Rightarrow> False
            | c # cs \<Rightarrow> if canon c = canon p then ciStartsWithOptSep cs ps else False))"

text \<open>
  \<open>/\bR/\<close>: some position of the string is a word boundary and its remainder matches
  \<open>R\<close>. \<open>prevWord\<close> tells whether the code unit before the position is of \<open>\w\<close>.
\<close>

fun matchAtBoundary :: "(jsstring \<Rightarrow> bool) \<Rightarrow> bool \<Rightarrow> jsstring \<Rightarrow> bool" where
  "matchAtBoundary M prevWord [] = (prevWord \<and> M [])"
| "matchAtBoundary M prevWord (c # cs) =
     (if prevWord \<noteq> isWordChar c \<and> M (c # cs) then True
      else matchAtBoundary M (isWordChar c) cs)"

text \<open>
  \<open>new RegExp(`\\b${p}\\w*|${p}`, 'i').test(name)\<close>; the trailing \<open>\w*\<close> matches the empty
  string.
\<close>

definition regexTest :: "jsstring \<Rightarrow> jsstring \<Rightarrow> bool" where
  "regexTest name p \<longleftrightarrow>
     matchAtBoundary (\<lambda>s. ciStartsWith s p) False name \<or> ciIncludes name p"

text \<open>\<open>new RegExp(`\\b${p.replace(/[-_]/g, '[-_]?')}\\w*|${p}`, 'i').test(name)\<close>.\<close>

definition clothingTest :: "jsstring \<Rightarrow> jsstring \<Rightarrow> bool" where
  "clothingTest name p \<longleftrightarrow>
     matchAtBoundary (\<lambda>s. ciStartsWithOptSep s p) False name \<or> ciIncludes name p"

text \<open>
  A loop over the entries of a table that pushes the token of the first entry with a
  matching pattern and breaks.
\<close>

fun firstMatch :: "(jsstring \<Rightarrow> bool) \<Rightarrow> entries \<Rightarrow> jsstring list" where
  "firstMatch hit [] = []"
| "firstMatch hit ((item, patterns) # es) =
     (if list_ex hit patterns then [item] else firstMatch hit es)"

text \<open>The loop over the home appliances, which has no \<open>break\<close>.\<close>

fun allMatches :: "(jsstring \<Rightarrow> bool) \<Rightarrow> entries \<Rightarrow> jsstring list" where
  "allMatches hit [] = []"
| "allMatches hit ((item, patterns) # es) =
     (if list_ex hit patterns then item # allMatches hit es else allMatches hit es)"

text \<open>\<open>Math.max(...patterns.map(p => p.length))\<close>; no entry has an empty pattern list.\<close>

definition maxLen :: "jsstring list \<Rightarrow> nat" where
  "maxLen patterns = foldr max (map length patterns) 0"

text \<open>
  The clothing entries sorted by \<open>(a, b) => bMaxLen - aMaxLen\<close>: longest pattern first,
  and \<open>Array.prototype.sort\<close> keeps the order of entries that compare equal.
\<close>

definition clothingEntries :: entries where
  "clothingEntries = sort_key (\<lambda>(item, patterns). - int (maxLen patterns)) clothing"

section \<open>The classifier\<close>

text \<open>
  The string that the tables are matched against: the cleaned file name, or the
  lower-cased file name when the cleaned one has at most two code units.
\<close>

definition analysisName :: "jsstring \<Rightarrow> jsstring" where
  "analysisName fileName =
     (let cleaned = cleanFileName fileName
      in if length cleaned > 2 then cleaned else toLowerCase fileName)"

definition analyzeFileName :: "jsstring \<Rightarrow> jsstring list" where
  "analyzeFileName fileName =
     (let name = analysisName fileName
      in firstMatch (regexTest name) colors
       @ firstMatch (regexTest name) materials
       @ firstMatch (includesStr name) styles
       @ firstMatch (clothingTest name) clothingEntries
       @ firstMatch (includesStr name) shoes
       @ firstMatch (includesStr name) bags
       @ firstMatch (includesStr name) jewelry
       @ firstMatch (includesStr name) accessories
       @ firstMatch (includesStr name) electronics
       @ allMatches (includesStr name) home
       @ firstMatch (includesStr name) furniture
       @ firstMatch (includesStr name) kitchen
       @ firstMatch (includesStr name) beauty
       @ firstMatch (includesStr name) sports
       @ firstMatch (includesStr name) baby
       @ firstMatch (includesStr name) pet
       @ firstMatch (includesStr name) scenes
       @ firstMatch (includesStr name) seasons
       @ firstMatch (includesStr name) sizes)"

text \<open>\<open>analyzeFileName\<close> of the earlier copy, \<open>src/utils/imageClassifier.ts\<close>.\<close>

definition analyzeFileName_v1 :: "jsstring \<Rightarrow> jsstring list" where
  "analyzeFileName_v1 fileName =
     (let name = toLowerCase fileName
      in firstMatch (includesStr name) colors_v1
       @ firstMatch (includesStr name) materials_v1
       @ firstMatch (includesStr name) styles
       @ firstMatch (includesStr name) clothing_v1
       @ firstMatch (includesStr name) shoes
       @ firstMatch (includesStr name) bags
       @ firstMatch (includesStr name) jewelry
       @ firstMatch (includesStr name) accessories
       @ firstMatch (includesStr name) electronics
       @ allMatches (includesStr name) home
       @ firstMatch (includesStr name) furniture
       @ firstMatch (includesStr name) kitchen
       @ firstMatch (includesStr name) beauty
       @ firstMatch (includesStr name) sports
       @ firstMatch (includesStr name) baby
       @ firstMatch (includesStr name) pet
       @ firstMatch (includesStr name) scenes
       @ firstMatch (includesStr name) seasons
       @ firstMatch (includesStr name) sizes)"

text \<open>\<open>Array.from(new Set(xs))\<close>: the first occurrence of each element, in order.\<close>

fun dedupe :: "'a list \<Rightarrow> 'a list \<Rightarrow> 'a list" where
  "dedupe seen [] = []"
| "dedupe seen (x # xs) =
     (if x \<in> set seen then dedupe seen xs else x # dedupe (seen @ [x]) xs)"

text \<open>
  \<open>analyzeImage\<close>, as far as its \<open>suggestedKeywords\<close>. The visual recognition is the
  browser's and the model's: \<open>aiKeywords\<close> is what \<open>recognizeWithAI\<close> returned, the empty
  list when it is not available.
\<close>

definition analyzeImage :: "jsstring \<Rightarrow> jsstring list \<Rightarrow> jsstring list" where
  "analyzeImage fileName aiKeywords =
     (let allKeywords = aiKeywords @ analyzeFileName fileName;
          uniqueKeywords = dedupe [] allKeywords
      in if uniqueKeywords = [] then [u ''product''] else uniqueKeywords)"

text \<open>\<open>xs.join(sep)\<close>.\<close>

fun join :: "jsstring \<Rightarrow> jsstring list \<Rightarrow> jsstring" where
  "join sep [] = []"
| "join sep [x] = x"
| "join sep (x # y # zs) = x @ sep @ join sep (y # zs)"

text \<open>
  \<open>s.split(/[C]+/)\<close> for a character class \<open>C\<close>; \<open>cur\<close> holds the piece read so far,
  reversed.
\<close>

function splitRuns :: "(jschar \<Rightarrow> bool) \<Rightarrow> jsstring \<Rightarrow> jsstring \<Rightarrow> jsstring list" where
  "splitRuns P cur [] = [rev cur]"
| "splitRuns P cur (c # cs) =
     (if P c then rev cur # splitRuns P [] (dropWhile P cs) else splitRuns P (c # cur) cs)"
  by pat_completeness auto
termination
  by (relation "measure (\<lambda>(P, cur, s). length s)")
     (auto simp: le_imp_less_Suc length_dropWhile_le)

text \<open>\<open>/\.[^.]+$/\<close> on a remainder.\<close>

definition isAnyExtension :: "jsstring \<Rightarrow> bool" where
  "isAnyExtension s = (case s of [] \<Rightarrow> False | c # cs \<Rightarrow> c = 0x2E \<and> cs \<noteq> [] \<and> 0x2E \<notin> set cs)"

definition colorTokens :: "jsstring list" where
  "colorTokens =
     [u ''red'', u ''blue'', u ''green'', u ''yellow'', u ''black'', u ''white'', u ''gray'',
      u ''grey'', u ''pink'', u ''purple'', u ''orange'', u ''brown'', u ''beige'', u ''gold'',
      u ''silver'', u ''multicolor'']"

definition materialTokens :: "jsstring list" where
  "materialTokens =
     [u ''leather'', u ''canvas'', u ''cotton'', u ''silk'', u ''wool'', u ''denim'', u ''linen'',
      u ''velvet'', u ''lace'', u ''knit'', u ''metal'', u ''wood'', u ''ceramic'', u ''glass'',
      u ''plastic'', u ''rubber'', u ''carbon-fiber'', u ''fabric'']"

definition styleTokens :: "jsstring list" where
  "styleTokens =
     [u ''casual'', u ''formal'', u ''vintage'', u ''minimalist'', u ''luxury'', u ''cute'',
      u ''elegant'', u ''sport'', u ''classic'', u ''modern'', u ''bohemian'', u ''preppy'',
      u ''street'']"

definition genericTokens :: "jsstring list" where
  "genericTokens =
     [u ''product'', u ''all-season'', u ''mini'', u ''small'', u ''medium'', u ''large'',
      u ''xlarge'']"

text \<open>
  The words that \<open>extractKeywords\<close> takes from the cleaned file name when the first
  suggested keyword is \<open>product\<close>.
\<close>

definition fileNameWords :: "jsstring \<Rightarrow> jsstring list" where
  "fileNameWords cleaned =
     take 3
       (filter (\<lambda>w. length w > 2 \<and> \<not> (w \<noteq> [] \<and> list_all isDigit w))
         (splitRuns (\<lambda>c. isWhiteSpace c \<or> c = hyphen) []
           (map (\<lambda>c. if isLowerAZ c \<or> isCJK c \<or> isWhiteSpace c \<or> c = hyphen then c else 0x20)
             cleaned)))"

text \<open>
  Lines 1153 to 1212 of \<open>extractKeywords\<close>: the combination of the suggested keywords.
\<close>

definition combineKeywords :: "jsstring list \<Rightarrow> jsstring" where
  "combineKeywords suggestedKeywords =
     (let category = (case suggestedKeywords of
                        [] \<Rightarrow> u ''product''
                      | k # _ \<Rightarrow> if k = [] then u ''product'' else k);
          color = find (\<lambda>k. k \<in> set colorTokens) suggestedKeywords;
          material = find (\<lambda>k. k \<in> set materialTokens) suggestedKeywords;
          style = find (\<lambda>k. k \<in> set styleTokens) suggestedKeywords;
          c1 = (if category \<noteq> u ''product'' then [category] else []);
          c2 = (case color of Some c \<Rightarrow> c1 @ [c] | None \<Rightarrow> c1);
          c3 = (case material of Some m \<Rightarrow> c2 @ [m] | None \<Rightarrow> c2);
          c4 = (case style of Some s \<Rightarrow> if length c3 < 3 then c3 @ [s] else c3 | None \<Rightarrow> c3);
          c5 = (if length c4 < 2 \<and> length suggestedKeywords > 1
                then (case filter (\<lambda>k. k \<noteq> category \<and> Some k \<noteq> color \<and> Some k \<noteq> material
                                       \<and> Some k \<noteq> style \<and> k \<notin> set genericTokens)
                             suggestedKeywords of
                        [] \<Rightarrow> c4
                      | a # _ \<Rightarrow> c4 @ [a])
                else c4);
          combinedKeywords = (if c5 = [] then [category] else c5);
          finalKeywords = join (u ''-'') (take 4 combinedKeywords)
      in if finalKeywords = [] then u ''product'' else finalKeywords)"

definition extractKeywords :: "jsstring \<Rightarrow> jsstring list \<Rightarrow> jsstring" where
  "extractKeywords fileName aiKeywords =
     (let suggestedKeywords = analyzeImage fileName aiKeywords;
          cleaned = cleanFileName fileName;
          words = fileNameWords cleaned
      in if (suggestedKeywords = [] \<or> hd suggestedKeywords = u ''product'')
            \<and> length cleaned > 2
            \<and> cleaned \<noteq> dropMatchingSuffix isAnyExtension (toLowerCase fileName)
            \<and> words \<noteq> []
         then join (u ''-'') words
         else combineKeywords suggestedKeywords)"

section \<open>The classifier rules as the specification words them\<close>

text \<open>
  The categories in their order, each with its test, its entries and the flag that tells
  whether every matching entry contributes (\<open>True\<close>) or only the first one (\<open>False\<close>).
\<close>

definition categories :: "((jsstring \<Rightarrow> jsstring \<Rightarrow> bool) \<times> entries \<times> bool) list" where
  "categories =
     [(regexTest, colors, False), (regexTest, materials, False), (includesStr, styles, False),
      (clothingTest, clothingEntries, False), (includesStr, shoes, False),
      (includesStr, bags, False), (includesStr, jewelry, False),
      (includesStr, accessories, False), (includesStr, electronics, False),
      (includesStr, home, True), (includesStr, furniture, False), (includesStr, kitchen, False),
      (includesStr, beauty, False), (includesStr, sports, False), (includesStr, baby, False),
      (includesStr, pet, False), (includesStr, scenes, False), (includesStr, seasons, False),
      (includesStr, sizes, False)]"

text \<open>
  What a category contributes for a name: the tokens of the entries that have a pattern
  hitting the name, all of them or the first only.
\<close>

definition contribution ::
  "jsstring \<Rightarrow> (jsstring \<Rightarrow> jsstring \<Rightarrow> bool) \<times> entries \<times> bool \<Rightarrow> jsstring list" where
  "contribution name cat =
     (case cat of (test, es, collectAll) \<Rightarrow>
        (let hits = map fst (filter (\<lambda>(item, patterns). list_ex (test name) patterns) es)
         in if collectAll then hits else take 1 hits))"

text \<open>
  The keyword composition in the words of the specification: the primary token, then a
  colour, then a material, then a style while fewer than 3 tokens are chosen, otherwise
  one more token that is not generic while fewer than 2 are chosen; at most 4 tokens
  joined by hyphens, \<open>product\<close> when nothing is left.
\<close>

definition extractKeyword_spec :: "jsstring list \<Rightarrow> jsstring" where
  "extractKeyword_spec tokens =
     (let primary = (case tokens of [] \<Rightarrow> u ''product'' | t # _ \<Rightarrow> t);
          chosen1 = [primary];
          chosen2 = chosen1 @ (case find (\<lambda>k. k \<in> set colorTokens) tokens of
                                 Some c \<Rightarrow> [c] | None \<Rightarrow> []);
          chosen3 = chosen2 @ (case find (\<lambda>k. k \<in> set materialTokens) tokens of
                                 Some m \<Rightarrow> [m] | None \<Rightarrow> []);
          more = (if length chosen3 < 2
                  then (case find (\<lambda>k. k \<notin> set chosen3 \<and> k \<notin> set genericTokens) tokens of
                          Some a \<Rightarrow> chosen3 @ [a] | None \<Rightarrow> chosen3)
                  else chosen3);
          chosen4 = (case find (\<lambda>k. k \<in> set styleTokens) tokens of
                       Some s \<Rightarrow> if length chosen3 < 3 then chosen3 @ [s] else more
                     | None \<Rightarrow> more);
          final = join (u ''-'') (take 4 chosen4)
      in if final = [] then u ''product'' else final)"

section \<open>Sample file names\<close>

text \<open>The file name of the specification's scenario.\<close>

definition coffeeFileName :: jsstring where
  "coffeeFileName = u ''#01_coffee-maker_grinder_front.png''"

text \<open>
  The file name of \<open>test-keyword.js\<close>: \<open>#01\<close>, a space, the Chinese words for coffee
  machine and grinder, an underscore, the Chinese for a front view on white, \<open>.png\<close>.
\<close>

definition coffeeFileNameZh :: jsstring where
  "coffeeFileNameZh =
     u ''#01 '' @ [0x5496, 0x5561, 0x673A, 0x7814, 0x78E8, 0x673A] @ u ''_'' @ [0x6B63, 0x9762, 0x767D, 0x5E95, 0x56FE] @ u ''.png''"

section \<open>Predicates used in the proofs\<close>

text \<open>The code units a sanitized keyword is made of, and the absence of a run of hyphens.\<close>

definition tokChar :: "jschar \<Rightarrow> bool" where
  "tokChar c \<longleftrightarrow> isLowerAZ c \<or> isDigit c \<or> isCJK c \<or> c = hyphen"

fun noHyphenRun :: "jsstring \<Rightarrow> bool" where
  "noHyphenRun (x # y # zs) \<longleftrightarrow> \<not> (x = hyphen \<and> y = hyphen) \<and> noHyphenRun (y # zs)"
| "noHyphenRun _ \<longleftrightarrow> True"

section \<open>The sanitizer is idempotent\<close>

lemma tokChar_not_ws: "tokChar c \<Longrightarrow> \<not> isWhiteSpace c"
  by (auto simp: tokChar_def isWhiteSpace_def isLowerAZ_def isDigit_def isCJK_def hyphen_def)

lemma tokChar_kept: "tokChar c \<Longrightarrow> keptChar c"
  by (auto simp: tokChar_def keptChar_def)

lemma kept_cases: "keptChar c \<Longrightarrow> tokChar c \<or> isWhiteSpace c"
  by (auto simp: tokChar_def keptChar_def)

lemma tokChar_lower: "tokChar c \<Longrightarrow> lowerUnit c = [c]"
  by (auto simp: tokChar_def lowerUnit_def isLowerAZ_def isUpperAZ_def isDigit_def isCJK_def hyphen_def)

lemma toLowerCase_tok: "\<forall>c\<in>set s. tokChar c \<Longrightarrow> toLowerCase s = s"
  by (induction s) (auto simp: toLowerCase_def tokChar_lower)

lemma dropWhile_none: "\<forall>c\<in>set s. \<not> P c \<Longrightarrow> dropWhile P s = s"
  by (cases s) auto

lemma trim_tok: "\<forall>c\<in>set s. tokChar c \<Longrightarrow> trim s = s"
  by (simp add: trim_def dropWhile_none tokChar_not_ws)

lemma replaceRuns_none: "\<forall>c\<in>set s. \<not> P c \<Longrightarrow> replaceRuns P r s = s"
  by (induction s) auto

lemma replaceRuns_noRun: "noHyphenRun s \<Longrightarrow> replaceRuns (\<lambda>c. c = hyphen) [hyphen] s = s"
  by (induction s rule: noHyphenRun.induct) auto

lemma replaceRuns_ws_tok:
  "\<forall>c\<in>set s. keptChar c \<Longrightarrow> \<forall>c\<in>set (replaceRuns isWhiteSpace [hyphen] s). tokChar c"
proof (induction isWhiteSpace "[hyphen]" s rule: replaceRuns.induct)
  case 1
  then show ?case by simp
next
  case (2 c cs)
  then show ?case
    by (auto simp: tokChar_def dest: kept_cases set_dropWhileD)
qed

lemma replaceRuns_hyphen_set:
  "set (replaceRuns (\<lambda>c. c = hyphen) [hyphen] s) \<subseteq> set s"
  by (induction "\<lambda>c. c = hyphen" "[hyphen]" s rule: replaceRuns.induct)
     (auto dest: set_dropWhileD)

lemma replaceRuns_hyphen_noRun:
  "noHyphenRun (replaceRuns (\<lambda>c. c = hyphen) [hyphen] s)"
proof (induction "\<lambda>c::jschar. c = hyphen" "[hyphen]" s rule: replaceRuns.induct)
  case 1
  then show ?case by simp
next
  case (2 c cs)
  show ?case
  proof (cases "c = hyphen")
    case True
    define d where "d = dropWhile (\<lambda>c. c = hyphen) cs"
    have hd: "d = [] \<or> hd d \<noteq> hyphen"
      unfolding d_def using hd_dropWhile[of "\<lambda>c. c = hyphen" cs] by blast
    have ih: "noHyphenRun (replaceRuns (\<lambda>c. c = hyphen) [hyphen] d)"
      unfolding d_def using 2(1) True by simp
    have "noHyphenRun (hyphen # replaceRuns (\<lambda>c. c = hyphen) [hyphen] d)"
      using hd ih by (cases d) auto
    then show ?thesis using True by (simp add: d_def)
  next
    case False
    then show ?thesis using 2
      by (cases "replaceRuns (\<lambda>c. c = hyphen) [hyphen] cs") auto
  qed
qed

lemma sanitize_tok: "\<forall>c\<in>set (sanitizeKeyword v). tokChar c"
  unfolding sanitizeKeyword_def
  using replaceRuns_hyphen_set replaceRuns_ws_tok[of "filter keptChar (toLowerCase (trim v))"]
  by fastforce

lemma sanitize_noRun: "noHyphenRun (sanitizeKeyword v)"
  unfolding sanitizeKeyword_def by (rule replaceRuns_hyphen_noRun)

lemma sanitize_fix:
  assumes "\<forall>c\<in>set s. tokChar c" and "noHyphenRun s"
  shows "sanitizeKeyword s = s"
proof -
  have "filter keptChar s = s" using assms(1) by (simp add: tokChar_kept)
  moreover have "replaceRuns isWhiteSpace [hyphen] s = s"
    using assms(1) by (simp add: replaceRuns_none tokChar_not_ws)
  ultimately show ?thesis
    using assms by (simp add: sanitizeKeyword_def trim_tok toLowerCase_tok replaceRuns_noRun)
qed

text \<open>
  Claim C3: the keyword sanitizer is idempotent: sanitizing a sanitized keyword gives it back,
  for every string.
\<close>

theorem sanitizeKeyword_idempotent:
  "sanitizeKeyword (sanitizeKeyword s) = sanitizeKeyword s"
  by (rule sanitize_fix [OF sanitize_tok sanitize_noRun])

theorem sanitizeKeyword_idempotent_witness:
  "sanitizeKeyword (sanitizeKeyword (u '' Red  - Silk!! '')) = u ''red-silk''"
  using sanitizeKeyword_idempotent [of "u '' Red  - Silk!! ''"] by code_simp

section \<open>Fallback, savings and naming of one transform\<close>

lemma numberToString_nonempty: "numberToString n \<noteq> []"
  by (subst numberToString.simps) simp

lemma numberToString_length: "length (numberToString n) = 1 \<longleftrightarrow> n < 10"
proof (cases "n < 10")
  case True
  then show ?thesis by (subst numberToString.simps) simp
next
  case False
  have "length (numberToString (n div 10)) \<noteq> 0"
    using numberToString_nonempty by simp
  then show ?thesis using False by (subst numberToString.simps) simp
qed

lemma padStart_paddedIndex: "padStart 2 0x30 (numberToString n) = paddedIndex n"
proof (cases "n < 10")
  case True
  then have "length (numberToString n) = 1" using numberToString_length [of n] by simp
  then show ?thesis using True by (simp add: padStart_def paddedIndex_def u_def)
next
  case False
  then have "length (numberToString n) \<noteq> 1" using numberToString_length [of n] by simp
  moreover have "length (numberToString n) \<noteq> 0" using numberToString_nonempty by simp
  ultimately have "2 - length (numberToString n) = 0" by arith
  then show ?thesis using False by (simp add: padStart_def paddedIndex_def)
qed

lemma mimeToExt_cases:
  "mimeToExt t = (if t = u ''image/jpeg'' then Some (u ''jpg'')
                  else if t = u ''image/png'' then Some (u ''png'')
                  else if t = u ''image/webp'' then Some (u ''webp'') else None)"
  by (simp add: mimeToExt_def)

lemma preferred_in_table:
  "preferredTypeOf input = u ''image/jpeg'' \<or> preferredTypeOf input = u ''image/png''
   \<or> preferredTypeOf input = u ''image/webp''"
  by (auto simp: preferredTypeOf_def)

lemma u_neq_simps:
  "u ''image/jpeg'' \<noteq> u ''image/png''" "u ''image/jpeg'' \<noteq> u ''image/webp''"
  "u ''image/png'' \<noteq> u ''image/webp''" "u ''image/jpeg'' \<noteq> []" 
  by (simp_all add: u_def)

lemma ext_preferred:
  "(case mimeToExt (preferredTypeOf input) of Some e \<Rightarrow> e | None \<Rightarrow> u ''jpg'')
     = extensionOf (preferredTypeOf input)"
  using preferred_in_table[of input]
  by (auto simp: mimeToExt_cases extensionOf_def)

lemma ext_original:
  "(case mimeToExt (originalTypeOf input) of Some e \<Rightarrow> e
    | None \<Rightarrow> (case mimeToExt (preferredTypeOf input) of Some e \<Rightarrow> e | None \<Rightarrow> u ''jpg''))
     = extensionOf (originalTypeOf input)"
  by (auto simp: mimeToExt_cases extensionOf_def preferredTypeOf_def u_neq_simps)


lemma ext_table: "(case mimeToExt t of Some e \<Rightarrow> e | None \<Rightarrow> u ''jpg'') = extensionOf t"
  by (simp add: mimeToExt_cases extensionOf_def)

lemma accepted_nonempty: "t \<in> set acceptedTypes \<Longrightarrow> t \<noteq> []"
  by (auto simp: acceptedTypes_def u_def)



text \<open>
  Claim C1: when the final encoded bytes are more than the original bytes, the output
  holds the original bytes exactly, and the extension in the output name is the one the
  table gives for the original content type (\<open>jpg\<close> where the table has no entry).
\<close>

theorem fallback_uses_original:
  assumes acc: "ftype (imageFile input) \<in> set acceptedTypes"
    and enc: "encodeImage env input sq = Some outputBlob"
    and big: "length outputBlob > fsize (imageFile input)"
  shows "\<exists>r. processSingleImage env input kw sq index = Some r
           \<and> blob r = fbytes (imageFile input)
           \<and> seoName r =
               (if sanitizeKeyword kw = [] then u ''product'' else sanitizeKeyword kw)
                 @ u ''-'' @ padStart 2 0x30 (numberToString (index + 1)) @ u ''.''
                 @ (case mimeToExt (ftype (imageFile input)) of Some e \<Rightarrow> e | None \<Rightarrow> u ''jpg'')"
proof -
  have orig: "originalTypeOf input = ftype (imageFile input)"
    using accepted_nonempty[OF acc] by (simp add: originalTypeOf_def)
  have ext: "(case mimeToExt (originalTypeOf input) of Some e \<Rightarrow> e
              | None \<Rightarrow> (case mimeToExt (preferredTypeOf input) of Some e \<Rightarrow> e | None \<Rightarrow> u ''jpg''))
             = (case mimeToExt (ftype (imageFile input)) of Some e \<Rightarrow> e | None \<Rightarrow> u ''jpg'')"
    unfolding ext_original by (simp add: orig ext_table)
  show ?thesis
    using enc big ext by (simp add: processSingleImage_def finishImage_def Let_def)
qed

theorem fallback_uses_original_witness:
  "\<exists>r. processSingleImage (stubPlatform 5 5) (sampleImage ''a.png'' ''image/png'' 3) (u ''kw'') False 0
         = Some r
       \<and> blob r = [1, 1, 1] \<and> seoName r = u ''kw-01.png''"
proof -
  have a: "ftype (imageFile (sampleImage ''a.png'' ''image/png'' 3)) \<in> set acceptedTypes"
    by code_simp
  have b: "encodeImage (stubPlatform 5 5) (sampleImage ''a.png'' ''image/png'' 3) False
             = Some (replicate 5 0)"
    by code_simp
  have c: "length (replicate 5 (0::byte)) > fsize (imageFile (sampleImage ''a.png'' ''image/png'' 3))"
    by code_simp
  have d: "fbytes (imageFile (sampleImage ''a.png'' ''image/png'' 3)) = [1, 1, 1]"
    by code_simp
  have e: "(if sanitizeKeyword (u ''kw'') = [] then u ''product'' else sanitizeKeyword (u ''kw''))
             @ u ''-'' @ padStart 2 0x30 (numberToString (0 + 1)) @ u ''.''
             @ (case mimeToExt (ftype (imageFile (sampleImage ''a.png'' ''image/png'' 3))) of
                  Some e \<Rightarrow> e | None \<Rightarrow> u ''jpg'') = u ''kw-01.png''"
    by code_simp
  show ?thesis
    using fallback_uses_original [OF a b c, of "u ''kw''" 0] unfolding d e .
qed



lemma seoName_finishImage:
  "seoName (finishImage input k index ob) =
     (if sanitizeKeyword k = [] then u ''product'' else sanitizeKeyword k)
       @ u ''-'' @ padStart 2 0x30 (numberToString (index + 1)) @ u ''.''
       @ (if length ob > fsize (imageFile input)
          then (case mimeToExt (originalTypeOf input) of Some e \<Rightarrow> e
                | None \<Rightarrow> (case mimeToExt (preferredTypeOf input) of Some e \<Rightarrow> e | None \<Rightarrow> u ''jpg''))
          else (case mimeToExt (preferredTypeOf input) of Some e \<Rightarrow> e | None \<Rightarrow> u ''jpg''))"
  unfolding finishImage_def Let_def by simp

lemma seoName_finish:
  assumes "ftype (imageFile input) \<in> set acceptedTypes"
  shows "seoName (finishImage input k index ob)
           = name_spec k (index + 1)
               (if length ob > fsize (imageFile input) then ftype (imageFile input)
                else preferredTypeOf input)"
proof -
  have orig: "originalTypeOf input = ftype (imageFile input)"
    using accepted_nonempty[OF assms] by (simp add: originalTypeOf_def)
  show ?thesis
    unfolding seoName_finishImage
    unfolding ext_original
    unfolding ext_preferred padStart_paddedIndex orig name_spec_def
    by (cases "length ob > fsize (imageFile input)") simp_all
qed

text \<open>
  Claim C4: the output name is the sanitized keyword (\<open>product\<close> when that is empty), a
  hyphen, the 1-based sequence index zero-padded to two digits (wider numbers unpadded), a
  dot, and the extension that the fixed table gives for the resolved output type, \<open>jpg\<close>
  for a type outside the table; the keyword \<open>Summer Silk Dress!!\<close> at sequence index 1 with
  a JPEG image gives \<open>summer-silk-dress-01.jpg\<close>.
\<close>

theorem seoName_format:
  assumes acc: "ftype (imageFile input) \<in> set acceptedTypes"
    and enc: "encodeImage env input sq = Some ob"
  shows "\<exists>r. processSingleImage env input k sq index = Some r
           \<and> seoName r = name_spec k (index + 1)
                 (if length ob > fsize (imageFile input) then ftype (imageFile input)
                  else preferredTypeOf input)
           \<and> (ftype (imageFile input) = u ''image/jpeg'' \<and> k = u ''Summer Silk Dress!!'' \<and> index = 0
                \<longrightarrow> seoName r = u ''summer-silk-dress-01.jpg'')"
proof -
  let ?r = "finishImage input k index ob"
  have p: "processSingleImage env input k sq index = Some ?r"
    using enc by (simp add: processSingleImage_def)
  have n: "seoName ?r = name_spec k (index + 1)
             (if length ob > fsize (imageFile input) then ftype (imageFile input)
              else preferredTypeOf input)"
    by (rule seoName_finish [OF acc])
  have e: "seoName ?r = u ''summer-silk-dress-01.jpg''"
    if "ftype (imageFile input) = u ''image/jpeg''" "k = u ''Summer Silk Dress!!''" "index = 0"
  proof -
    have pt: "preferredTypeOf input = u ''image/jpeg''"
      using that(1) by (simp add: preferredTypeOf_def originalTypeOf_def u_neq_simps)
    have nm: "name_spec (u ''Summer Silk Dress!!'') (0 + 1) (u ''image/jpeg'')
                = u ''summer-silk-dress-01.jpg''"
      by code_simp
    show ?thesis using n nm unfolding that pt by simp
  qed
  show ?thesis using p n e by blast
qed

theorem seoName_format_witness:
  "\<exists>r. processSingleImage (stubPlatform 2 2) (sampleImage ''IMG_1.jpg'' ''image/jpeg'' 5)
           (u ''Summer Silk Dress!!'') False 0 = Some r
       \<and> seoName r = u ''summer-silk-dress-01.jpg''"
proof -
  have a: "ftype (imageFile (sampleImage ''IMG_1.jpg'' ''image/jpeg'' 5)) \<in> set acceptedTypes"
    by code_simp
  have b: "encodeImage (stubPlatform 2 2) (sampleImage ''IMG_1.jpg'' ''image/jpeg'' 5) False
             = Some (replicate 2 0)"
    by (simp add: encodeImage_def stubPlatform_def sampleImage_def sampleFile_def
        newInputImage_def preferredTypeOf_def originalTypeOf_def targetBytes_def)
  have c: "ftype (imageFile (sampleImage ''IMG_1.jpg'' ''image/jpeg'' 5)) = u ''image/jpeg''"
    by code_simp
  show ?thesis
    using seoName_format [OF a b, of "u ''Summer Silk Dress!!''" 0] c by auto
qed

section \<open>Accepting files\<close>

lemma slice0_take: "n \<le> m \<Longrightarrow> slice0 (int m - int n) xs = take (m - n) xs"
  by (simp add: slice0_def nat_diff_distrib' flip: of_nat_diff)

lemma map_imageFile_new:
  "map imageFile (map (\<lambda>(k, f). newInputImage (rnd k) f) (enumerate n xs)) = xs"
  by (induction xs arbitrary: n) (simp_all add: newInputImage_def)

lemma handleFiles_accepting:
  assumes "filter (\<lambda>f. ftype f \<in> set acceptedTypes) fl \<noteq> []"
  shows "handleFiles rnd (Some fl) st =
     (let incoming = filter (\<lambda>f. ftype f \<in> set acceptedTypes) fl;
          mapped = map (\<lambda>(k, f). newInputImage (rnd k) f)
                     (enumerate 0 (slice0 (int MAX_FILES - int (length (files st))) incoming))
      in st\<lparr>message := (if length (files st) + length mapped \<ge> MAX_FILES
                          then Some (MessageLimit MAX_FILES) else None),
            signals := signals st @ [if length (files st) + length mapped \<ge> MAX_FILES
                          then Some (MessageLimit MAX_FILES) else None],
            files := files st @ mapped, processed := []\<rparr>)"
  using assms by (simp add: handleFiles_def Let_def setMessage_def)

lemma handleFiles_rejecting:
  assumes "filter (\<lambda>f. ftype f \<in> set acceptedTypes) fl = []"
  shows "handleFiles rnd (Some fl) st = setMessage (Some MessageInvalidType) st"
  using assms by (simp add: handleFiles_def)

text \<open>
  Claim C8: one submission never takes the batch beyond 10 images; the supported files
  beyond the remaining capacity are dropped without a message of their own; the limit
  message is raised once by a submission that fills the batch and not at all otherwise;
  12 supported files submitted to an empty batch leave 10 accepted and 2 rejected.
\<close>

theorem handleFiles_capacity:
  assumes cap: "length (files st) \<le> MAX_FILES"
  shows "let incoming = filter (\<lambda>f. ftype f \<in> set acceptedTypes) fl;
             st' = handleFiles rnd (Some fl) st
         in length (files st') \<le> MAX_FILES
          \<and> map imageFile (files st')
              = map imageFile (files st) @ take (MAX_FILES - length (files st)) incoming
          \<and> count_list (raised st st') (Some (MessageLimit MAX_FILES))
              = (if incoming \<noteq> [] \<and> length (files st) + length incoming \<ge> MAX_FILES
                 then 1 else 0)
          \<and> (files st = [] \<and> length incoming = 12
               \<longrightarrow> length (files st') = 10 \<and> length incoming - length (files st') = 2)"
proof (cases "filter (\<lambda>f. ftype f \<in> set acceptedTypes) fl = []")
  case True
  then show ?thesis
    using cap by (simp add: handleFiles_rejecting setMessage_def raised_def)
next
  case False
  define inc where "inc = filter (\<lambda>f. ftype f \<in> set acceptedTypes) fl"
  define mapped where "mapped = map (\<lambda>(k, f). newInputImage (rnd k) f)
                   (enumerate 0 (take (MAX_FILES - length (files st)) inc))"
  have sl: "slice0 (int MAX_FILES - int (length (files st))) inc
              = take (MAX_FILES - length (files st)) inc"
    by (rule slice0_take [OF cap])
  have h: "handleFiles rnd (Some fl) st =
       st\<lparr>message := (if length (files st) + length mapped \<ge> MAX_FILES
                          then Some (MessageLimit MAX_FILES) else None),
          signals := signals st @ [if length (files st) + length mapped \<ge> MAX_FILES
                          then Some (MessageLimit MAX_FILES) else None],
          files := files st @ mapped, processed := []\<rparr>"
    unfolding handleFiles_accepting[OF False] Let_def inc_def[symmetric] sl mapped_def
    by (rule refl)
  have len: "length mapped = min (length inc) (MAX_FILES - length (files st))"
    by (simp add: mapped_def)
  have fl: "map imageFile mapped = take (MAX_FILES - length (files st)) inc"
    unfolding mapped_def by (rule map_imageFile_new)
  have ne: "inc \<noteq> []" using False by (simp add: inc_def)
  show ?thesis
    unfolding Let_def h inc_def[symmetric] using cap ne fl
    by (auto simp: len raised_def MAX_FILES_def min_def)
qed


theorem handleFiles_capacity_witness:
  "length (files (handleFiles (\<lambda>k. []) (Some (replicate 12 (sampleFile ''a.png'' ''image/png'' 1)))
             initialState)) = 10
   \<and> count_list (raised initialState
         (handleFiles (\<lambda>k. []) (Some (replicate 12 (sampleFile ''a.png'' ''image/png'' 1)))
             initialState)) (Some (MessageLimit MAX_FILES)) = 1"
proof -
  have h: "length (files initialState) \<le> MAX_FILES"
    by (simp add: initialState_def)
  have inc: "filter (\<lambda>f. ftype f \<in> set acceptedTypes)
               (replicate 12 (sampleFile ''a.png'' ''image/png'' 1))
             = replicate 12 (sampleFile ''a.png'' ''image/png'' 1)"
    by (simp add: sampleFile_def acceptedTypes_def)
  have e: "files initialState = []"
    by (simp add: initialState_def)
  show ?thesis
    using handleFiles_capacity [OF h, of "replicate 12 (sampleFile ''a.png'' ''image/png'' 1)" "\<lambda>k. []"]
    unfolding Let_def inc e by (simp add: MAX_FILES_def)
qed

text \<open>
  Claim C10: a submission with at least one supported file empties the list of processed
  results, while the images already in the batch stay as they are.
\<close>

theorem handleFiles_clears_processed:
  assumes "filter (\<lambda>f. ftype f \<in> set acceptedTypes) fl \<noteq> []"
  shows "processed (handleFiles rnd (Some fl) st) = []
       \<and> take (length (files st)) (files (handleFiles rnd (Some fl) st)) = files st"
  by (simp add: handleFiles_accepting [OF assms] Let_def)

section \<open>Batch processing\<close>

lemma stub_process:
  assumes "fbytes (imageFile input) \<noteq> []" and "n \<le> targetBytes"
  shows "processSingleImage (stubPlatform n m) input k sq i
           = Some (finishImage input k i (replicate n 0))"
  using assms by (simp add: processSingleImage_def encodeImage_def stubPlatform_def Let_def)

lemma stub_fail:
  assumes "fbytes (imageFile input) = []"
  shows "processSingleImage (stubPlatform n m) input k sq i = None"
  using assms by (simp add: processSingleImage_def encodeImage_def stubPlatform_def)

lemma processLoop_map_filter:
  "processLoop env kw sq i xs acc
     = acc @ List.map_filter (\<lambda>(j, input). processItem env kw sq j input) (enumerate i xs)"
proof (induction xs arbitrary: i acc)
  case Nil
  then show ?case by (simp add: List.map_filter_simps)
next
  case (Cons x xs)
  then show ?case
    by (simp add: List.map_filter_simps processItem_def Let_def split: option.splits)
qed

lemma processed_processImages:
  assumes "files st \<noteq> []" and "trim (keyword st) \<noteq> []"
  shows "processed (processImages env st)
           = List.map_filter (\<lambda>(i, input). processItem env (keyword st) (isSquare st) i input)
               (enumerate 0 (files st))"
  using assms
  by (simp add: processImages_def Let_def setMessage_def processLoop_map_filter)

lemma set_map_filter: "set (List.map_filter g ps) = {r. \<exists>p\<in>set ps. g p = Some r}"
  by (induction ps) (auto simp: List.map_filter_simps split: option.splits)

lemma set_map_filter_enumerate:
  "set (List.map_filter (\<lambda>(i, x). f i x) (enumerate 0 xs))
     = {r. \<exists>i<length xs. f i (xs ! i) = Some r}"
proof -
  have "(\<exists>p\<in>set (enumerate 0 xs). (case p of (i, x) \<Rightarrow> f i x) = Some r)
          \<longleftrightarrow> (\<exists>i<length xs. f i (xs ! i) = Some r)" for r
  proof
    assume "\<exists>p\<in>set (enumerate 0 xs). (case p of (i, x) \<Rightarrow> f i x) = Some r"
    then obtain i x where "(i, x) \<in> set (enumerate 0 xs)" "f i x = Some r" by auto
    then show "\<exists>i<length xs. f i (xs ! i) = Some r"
      by (auto simp: in_set_enumerate_eq)
  next
    assume "\<exists>i<length xs. f i (xs ! i) = Some r"
    then obtain i where i: "i < length xs" "f i (xs ! i) = Some r" by auto
    then have "(i, xs ! i) \<in> set (enumerate 0 xs)"
      by (simp add: in_set_enumerate_eq)
    then show "\<exists>p\<in>set (enumerate 0 xs). (case p of (i, x) \<Rightarrow> f i x) = Some r"
      using i(2) by force
  qed
  then show ?thesis unfolding set_map_filter by simp
qed

text \<open>
  Claim C9: in a batch run, an item whose transform fails only leaves no record: the
  records kept are exactly those of the items that succeeded, in batch order, whatever
  happened to the items before them.
\<close>

theorem processImages_isolates_failures:
  assumes "files st \<noteq> []" and "trim (keyword st) \<noteq> []"
  shows "processed (processImages env st)
           = List.map_filter (\<lambda>(i, input). processItem env (keyword st) (isSquare st) i input)
               (enumerate 0 (files st))
       \<and> set (processed (processImages env st))
           = {r. \<exists>i<length (files st).
                   processItem env (keyword st) (isSquare st) i (files st ! i) = Some r}"
  unfolding processed_processImages [OF assms] set_map_filter_enumerate by simp

lemma sampleBatch_files:
  "files sampleBatch = [sampleImage ''a.jpg'' ''image/jpeg'' 3, sampleImage ''b.jpg'' ''image/jpeg'' 0,
                        sampleImage ''c.jpg'' ''image/jpeg'' 4]"
  by code_simp

lemma sampleBatch_keyword: "keyword sampleBatch = u ''kw''" "isSquare sampleBatch = False"
  by (simp_all add: sampleBatch_def handleFiles_def Let_def setMessage_def initialState_def)

lemma trim_kw: "trim (u ''kw'') \<noteq> []"
  by code_simp

lemma sample_keywordFor: "keywordFor k (sampleImage n t b) = k"
  by (simp add: keywordFor_def sampleImage_def newInputImage_def)

lemma sample_fbytes: "fbytes (imageFile (sampleImage n t b)) = replicate b 1"
  by (simp add: sampleImage_def newInputImage_def sampleFile_def)

lemma sample_processItem:
  "processItem (stubPlatform 2 2) (u ''kw'') False i (sampleImage n t b)
     = (if b = 0 then None
        else Some (finishImage (sampleImage n t b) (u ''kw'') i (replicate 2 0)))"
  by (simp add: processItem_def sample_keywordFor trim_kw stub_process stub_fail sample_fbytes
      targetBytes_def)

lemma sample_names:
  "seoName (finishImage (sampleImage ''a.jpg'' ''image/jpeg'' 3) (u ''kw'') 0 (replicate 2 0)) = u ''kw-01.jpg''"
  "seoName (finishImage (sampleImage ''c.jpg'' ''image/jpeg'' 4) (u ''kw'') (Suc (Suc 0)) (replicate 2 0)) = u ''kw-03.jpg''"
  "seoName (finishImage (sampleImage ''c.jpg'' ''image/jpeg'' 4) (u ''kw'') (Suc 0) (replicate 2 0)) = u ''kw-02.jpg''"
  by code_simp+

theorem processImages_isolates_failures_witness:
  "map seoName (processed (processImages (stubPlatform 2 2) sampleBatch))
     = [u ''kw-01.jpg'', u ''kw-03.jpg'']"
proof -
  have a: "files sampleBatch \<noteq> []" by (simp add: sampleBatch_files)
  have b: "trim (keyword sampleBatch) \<noteq> []" by (simp add: sampleBatch_keyword trim_kw)
  show ?thesis
    using processImages_isolates_failures [OF a b, of "stubPlatform 2 2"]
    by (simp add: sampleBatch_files sampleBatch_keyword enumerate_simps List.map_filter_simps
        sample_processItem sample_names)
qed

section \<open>Accepting files after a batch run\<close>

lemma files_processImages: "files (processImages env st) = files st"
  by (simp add: processImages_def Let_def setMessage_def)

theorem handleFiles_clears_processed_witness:
  "processed (processImages (stubPlatform 2 2) sampleBatch) \<noteq> []
   \<and> processed (handleFiles (\<lambda>k. u ''y'') (Some [sampleFile ''d.png'' ''image/png'' 1])
        (processImages (stubPlatform 2 2) sampleBatch)) = []
   \<and> take 3 (files (handleFiles (\<lambda>k. u ''y'') (Some [sampleFile ''d.png'' ''image/png'' 1])
        (processImages (stubPlatform 2 2) sampleBatch))) = files sampleBatch"
proof -
  have a: "files sampleBatch \<noteq> []" by (simp add: sampleBatch_files)
  have b: "trim (keyword sampleBatch) \<noteq> []" by (simp add: sampleBatch_keyword trim_kw)
  have p: "processed (processImages (stubPlatform 2 2) sampleBatch) \<noteq> []"
    by (simp add: processed_processImages [OF a b] sampleBatch_files sampleBatch_keyword
        enumerate_simps List.map_filter_simps sample_processItem)
  have f: "filter (\<lambda>f. ftype f \<in> set acceptedTypes) [sampleFile ''d.png'' ''image/png'' 1] \<noteq> []"
    by (simp add: sampleFile_def acceptedTypes_def)
  have l: "length (files (processImages (stubPlatform 2 2) sampleBatch)) = 3"
    by (simp add: files_processImages sampleBatch_files)
  show ?thesis
    using handleFiles_clears_processed [OF f, of "\<lambda>k. u ''y''" "processImages (stubPlatform 2 2) sampleBatch"] p
    unfolding l by (simp add: files_processImages)
qed

section \<open>The sequence index\<close>

lemma find_distinct:
  assumes "distinct (map f xs)" and "i < length xs"
  shows "find (\<lambda>x. f x = f (xs ! i)) xs = Some (xs ! i)
       \<and> findIndex (\<lambda>x. f x = f (xs ! i)) xs = i"
  using assms
proof (induction xs arbitrary: i)
  case Nil
  then show ?case by simp
next
  case (Cons x xs)
  show ?case
  proof (cases i)
    case 0
    then show ?thesis by simp
  next
    case (Suc j)
    then have j: "j < length xs" using Cons.prems by simp
    then have "f (xs ! j) \<in> set (map f xs)" by simp
    then have "f x \<noteq> f (xs ! j)" using Cons.prems(1) by auto
    then show ?thesis using Cons.IH [of j] Cons.prems(1) j Suc by simp
  qed
qed

lemma filter_distinct_removes:
  assumes "distinct (map f xs)" and "j < length xs"
  shows "filter (\<lambda>x. f x \<noteq> f (xs ! j)) xs = take j xs @ drop (Suc j) xs"
  using assms
proof (induction xs arbitrary: j)
  case Nil
  then show ?case by simp
next
  case (Cons x xs)
  show ?case
  proof (cases j)
    case 0
    have "\<forall>y\<in>set xs. f y \<noteq> f x" using Cons.prems(1) by (auto simp: image_iff)
    then have "filter (\<lambda>y. f y \<noteq> f x) xs = xs" by (simp add: filter_id_conv)
    then show ?thesis using 0 by simp
  next
    case (Suc k)
    then have k: "k < length xs" using Cons.prems by simp
    then have "f (xs ! k) \<in> set (map f xs)" by simp
    then have "f x \<noteq> f (xs ! k)" using Cons.prems(1) by auto
    then show ?thesis using Cons.IH [of k] Cons.prems(1) k Suc by simp
  qed
qed

lemma after_delete:
  assumes d: "distinct (map f xs)" and ji: "j < i" and i: "i < length xs"
  defines "ys \<equiv> filter (\<lambda>x. f x \<noteq> f (xs ! j)) xs"
  shows "distinct (map f ys)" and "i - 1 < length ys" and "ys ! (i - 1) = xs ! i"
proof -
  have ys: "ys = take j xs @ drop (Suc j) xs"
    unfolding ys_def using d ji i by (simp add: filter_distinct_removes)
  show "distinct (map f ys)" unfolding ys_def using d by (simp add: distinct_map_filter)
  show "i - 1 < length ys" using ji i by (simp add: ys min_def)
  have "\<not> i - 1 < j" using ji by arith
  moreover have "Suc j + (i - 1 - j) = i" using ji by arith
  ultimately show "ys ! (i - 1) = xs ! i" using ji i by (simp add: ys nth_append min_def)
qed

lemma compressSingleImage_at:
  assumes d: "distinct (map image_id (files st))" and i: "i < length (files st)"
    and kw: "trim (keywordFor (keyword st) (files st ! i)) \<noteq> []"
    and enc: "encodeImage env (files st ! i) (forceSquareFor (isSquare st) (files st ! i)) = Some ob"
  shows "processed (compressSingleImage env (image_id (files st ! i)) st)
           = filter (\<lambda>p. result_id p \<noteq> image_id (files st ! i)) (processed st)
               @ [finishImage (files st ! i) (keywordFor (keyword st) (files st ! i)) i ob]"
  using find_distinct [OF d i] kw enc
  by (simp add: compressSingleImage_def Let_def processSingleImage_def)


lemma stub_encode:
  assumes "fbytes (imageFile input) \<noteq> []" and "n \<le> targetBytes"
  shows "encodeImage (stubPlatform n m) input sq = Some (replicate n 0)"
  using assms by (simp add: encodeImage_def stubPlatform_def Let_def)

lemma files_compressSingleImage: "files (compressSingleImage env x st) = files st"
  by (simp add: compressSingleImage_def Let_def setMessage_def split: option.splits)

lemma ids_editKeyword: "map image_id (files (editKeyword x t st)) = map image_id (files st)"
  by (simp add: editKeyword_def comp_def)

text \<open>
  Claim C5, as the code has it: the sequence index in an output name is the position of
  the image in the batch list when it is processed. Reprocessing the image at position
  \<open>i\<close> names it with \<open>i + 1\<close>; after an earlier image is deleted it names it with \<open>i\<close>; a
  batch run passes each position to its item; processing and keyword edits leave the list,
  and so every position, as it was.
\<close>

theorem sequence_index_is_position:
  assumes d: "distinct (map image_id (files st))" and i: "i < length (files st)"
    and kw: "trim (keywordFor (keyword st) (files st ! i)) \<noteq> []"
    and enc: "encodeImage env (files st ! i) (forceSquareFor (isSquare st) (files st ! i)) = Some ob"
  shows "let img = files st ! i; k = keywordFor (keyword st) img in
         processed (compressSingleImage env (image_id img) st)
           = filter (\<lambda>p. result_id p \<noteq> image_id img) (processed st) @ [finishImage img k i ob]
       \<and> (\<forall>j<i. let st' = deleteSingleImage (image_id (files st ! j)) st in
             processed (compressSingleImage env (image_id img) st')
               = filter (\<lambda>p. result_id p \<noteq> image_id img) (processed st')
                   @ [finishImage img k (i - 1) ob])
       \<and> (trim (keyword st) \<noteq> [] \<longrightarrow>
             processed (processImages env st)
               = List.map_filter (\<lambda>(n, input). processItem env (keyword st) (isSquare st) n input)
                   (enumerate 0 (files st)))
       \<and> files (processImages env st) = files st
       \<and> files (compressSingleImage env x st) = files st
       \<and> map image_id (files (editKeyword x t st)) = map image_id (files st)"
proof -
  let ?img = "files st ! i"
  let ?k = "keywordFor (keyword st) ?img"
  have A: "processed (compressSingleImage env (image_id ?img) st)
             = filter (\<lambda>p. result_id p \<noteq> image_id ?img) (processed st) @ [finishImage ?img ?k i ob]"
    by (rule compressSingleImage_at [OF d i kw enc])
  have B: "processed (compressSingleImage env (image_id ?img) (deleteSingleImage (image_id (files st ! j)) st))
             = filter (\<lambda>p. result_id p \<noteq> image_id ?img)
                 (processed (deleteSingleImage (image_id (files st ! j)) st))
                 @ [finishImage ?img ?k (i - 1) ob]" if j: "j < i" for j
  proof -
    let ?st = "deleteSingleImage (image_id (files st ! j)) st"
    have fs: "files ?st = filter (\<lambda>f. image_id f \<noteq> image_id (files st ! j)) (files st)"
      by (simp add: deleteSingleImage_def)
    have d': "distinct (map image_id (files ?st))"
      and i': "i - 1 < length (files ?st)"
      and n': "files ?st ! (i - 1) = ?img"
      unfolding fs using after_delete [OF d j i] by simp_all
    have ks: "keyword ?st = keyword st" "isSquare ?st = isSquare st"
      by (simp_all add: deleteSingleImage_def)
    have kw': "trim (keywordFor (keyword ?st) (files ?st ! (i - 1))) \<noteq> []"
      unfolding n' ks by (rule kw)
    have enc': "encodeImage env (files ?st ! (i - 1))
                  (forceSquareFor (isSquare ?st) (files ?st ! (i - 1))) = Some ob"
      unfolding n' ks by (rule enc)
    show ?thesis
      using compressSingleImage_at [OF d' i' kw' enc'] unfolding n' ks .
  qed
  have C: "processed (processImages env st)
               = List.map_filter (\<lambda>(n, input). processItem env (keyword st) (isSquare st) n input)
                   (enumerate 0 (files st))" if "trim (keyword st) \<noteq> []"
  proof -
    have "files st \<noteq> []" using i by auto
    then show ?thesis using that by (rule processed_processImages)
  qed
  show ?thesis
    unfolding Let_def
    using A B C files_processImages files_compressSingleImage ids_editKeyword by blast
qed

lemma sampleBatch_rest:
  "processed sampleBatch = []"
  by (simp add: sampleBatch_def handleFiles_def Let_def setMessage_def initialState_def)

lemma sample_ids:
  "distinct (map image_id [sampleImage ''a.jpg'' ''image/jpeg'' 3, sampleImage ''b.jpg'' ''image/jpeg'' 0,
                        sampleImage ''c.jpg'' ''image/jpeg'' 4])"
  by code_simp

lemma sample_forceSquareFor: "forceSquareFor q (sampleImage n t b) = q"
  by (simp add: forceSquareFor_def sampleImage_def newInputImage_def)

theorem sequence_index_is_position_witness:
  "map seoName (processed (compressSingleImage (stubPlatform 2 2)
      (image_id (sampleImage ''c.jpg'' ''image/jpeg'' 4)) sampleBatch)) = [u ''kw-03.jpg'']"
proof -
  let ?c = "sampleImage ''c.jpg'' ''image/jpeg'' 4"
  have n: "files sampleBatch ! 2 = ?c" by (simp add: sampleBatch_files)
  have d: "distinct (map image_id (files sampleBatch))"
    unfolding sampleBatch_files by (rule sample_ids)
  have i: "2 < length (files sampleBatch)" by (simp add: sampleBatch_files)
  have kw: "trim (keywordFor (keyword sampleBatch) (files sampleBatch ! 2)) \<noteq> []"
    unfolding n by (simp add: sample_keywordFor sampleBatch_keyword trim_kw)
  have enc: "encodeImage (stubPlatform 2 2) (files sampleBatch ! 2)
               (forceSquareFor (isSquare sampleBatch) (files sampleBatch ! 2)) = Some (replicate 2 0)"
    unfolding n by (simp add: stub_encode sample_fbytes targetBytes_def)
  have nm: "seoName (finishImage ?c (u ''kw'') 2 (replicate 2 0)) = u ''kw-03.jpg''"
    by code_simp
  have "processed (compressSingleImage (stubPlatform 2 2) (image_id ?c) sampleBatch)
          = [finishImage ?c (u ''kw'') 2 (replicate 2 0)]"
    using sequence_index_is_position [OF d i kw enc, of "[]" "[]"]
    unfolding Let_def n
    by (simp add: sampleBatch_rest sample_keywordFor sampleBatch_keyword)
  then show ?thesis by (simp add: nm)
qed

text \<open>
  The third image of the sample batch is named with index 3; once the first image is
  deleted, reprocessing it names it with index 2.
\<close>

theorem sequence_index_stable_counterexample:
  "map seoName (processed (compressSingleImage (stubPlatform 2 2)
      (image_id (sampleImage ''c.jpg'' ''image/jpeg'' 4)) sampleBatch)) = [u ''kw-03.jpg'']
   \<and> map seoName (processed (compressSingleImage (stubPlatform 2 2)
      (image_id (sampleImage ''c.jpg'' ''image/jpeg'' 4))
      (deleteSingleImage (image_id (sampleImage ''a.jpg'' ''image/jpeg'' 3)) sampleBatch)))
       = [u ''kw-02.jpg'']"
proof -
  let ?a = "sampleImage ''a.jpg'' ''image/jpeg'' 3"
  let ?b = "sampleImage ''b.jpg'' ''image/jpeg'' 0"
  let ?c = "sampleImage ''c.jpg'' ''image/jpeg'' 4"
  let ?st = "deleteSingleImage (image_id ?a) sampleBatch"
  have ids: "image_id ?b \<noteq> image_id ?a" "image_id ?c \<noteq> image_id ?a" "image_id ?b \<noteq> image_id ?c"
    by code_simp+
  have e: "processSingleImage (stubPlatform 2 2) ?c (u ''kw'') False i
             = Some (finishImage ?c (u ''kw'') i (replicate 2 0))" for i
    by (simp add: stub_process sample_fbytes targetBytes_def)
  have f: "files ?st = [?b, ?c]"
    by (simp add: deleteSingleImage_def sampleBatch_files ids)
  have before: "processed (compressSingleImage (stubPlatform 2 2) (image_id ?c) sampleBatch)
                  = [finishImage ?c (u ''kw'') (Suc (Suc 0)) (replicate 2 0)]"
    using ids
    by (simp add: compressSingleImage_def Let_def sampleBatch_files sampleBatch_keyword
        sampleBatch_rest sample_keywordFor sample_forceSquareFor trim_kw e)
  have after: "processed (compressSingleImage (stubPlatform 2 2) (image_id ?c) ?st)
                  = [finishImage ?c (u ''kw'') (Suc 0) (replicate 2 0)]"
    using ids
    by (simp add: compressSingleImage_def Let_def f sample_keywordFor sample_forceSquareFor
        trim_kw e)
       (simp add: deleteSingleImage_def sampleBatch_keyword sampleBatch_rest sample_keywordFor
        sample_forceSquareFor trim_kw e)
  show ?thesis
    unfolding before after by (simp add: sample_names)
qed

section \<open>The classifier\<close>

lemma firstMatch_filter:
  "firstMatch hit es = take 1 (map fst (filter (\<lambda>(item, patterns). list_ex hit patterns) es))"
  by (induction es) auto

lemma allMatches_filter:
  "allMatches hit es = map fst (filter (\<lambda>(item, patterns). list_ex hit patterns) es)"
  by (induction es) auto

lemma analyzeFileName_categories:
  "analyzeFileName fileName = concat (map (contribution (analysisName fileName)) categories)"
  by (simp add: analyzeFileName_def categories_def contribution_def Let_def
      firstMatch_filter allMatches_filter)

lemma coffee_zh:
  "analyzeFileName coffeeFileNameZh = [u ''white'', u ''coffee-maker'', u ''coffee-grinder'']"
  by code_simp

lemma coffee_en: "analyzeFileName coffeeFileName = [u ''medium'']"
  by code_simp

lemma coffee_en_v1: "analyzeFileName_v1 coffeeFileName = [u ''medium'']"
  by code_simp

lemma xyz_names: "analyzeFileName (u ''photo_xyz.jpg'') = []"
  by code_simp


lemma dedupe_nil: "dedupe seen [] = []"
  by simp

lemma analyzeImage_no_ai:
  "analyzeImage fileName [] =
     (if dedupe [] (analyzeFileName fileName) = [] then [u ''product'']
      else dedupe [] (analyzeFileName fileName))"
  by (simp add: analyzeImage_def Let_def)

text \<open>
  Claim C6, as the code has it: the tokens of a file name are the contributions of the
  categories in order, where every category contributes the token of its first entry with
  a hitting pattern and nothing more, but for the home appliances, which contribute the
  token of every entry with a hitting pattern. The file name of \<open>test-keyword.js\<close>, with
  the Chinese words for coffee machine and grinder, yields \<open>white\<close>, \<open>coffee-maker\<close> and
  \<open>coffee-grinder\<close> without a visual classifier.
\<close>

theorem category_matching_policy:
  "analyzeFileName fileName = concat (map (contribution (analysisName fileName)) categories)
   \<and> analyzeImage coffeeFileNameZh [] = [u ''white'', u ''coffee-maker'', u ''coffee-grinder'']"
proof -
  have "dedupe [] [u ''white'', u ''coffee-maker'', u ''coffee-grinder'']
          = [u ''white'', u ''coffee-maker'', u ''coffee-grinder'']"
    by code_simp
  then have "analyzeImage coffeeFileNameZh [] = [u ''white'', u ''coffee-maker'', u ''coffee-grinder'']"
    by (simp add: analyzeImage_no_ai coffee_zh)
  then show ?thesis using analyzeFileName_categories by simp
qed

theorem category_matching_policy_witness:
  "u ''coffee-maker'' \<in> set (concat (map (contribution (analysisName coffeeFileNameZh)) categories))
   \<and> u ''coffee-grinder'' \<in> set (concat (map (contribution (analysisName coffeeFileNameZh)) categories))"
proof -
  have "concat (map (contribution (analysisName coffeeFileNameZh)) categories)
          = [u ''white'', u ''coffee-maker'', u ''coffee-grinder'']"
    using category_matching_policy [of coffeeFileNameZh] coffee_zh by simp
  then show ?thesis by simp
qed

text \<open>
  The file name \<open>#01_coffee-maker_grinder_front.png\<close> hits no pattern of the home
  appliances, which are Chinese words and \<open>espresso\<close>: without a visual classifier its
  only token is \<open>medium\<close>, in the current classifier and in the earlier copy.
\<close>

theorem coffee_scenario_counterexample:
  "analyzeImage coffeeFileName [] = [u ''medium'']
   \<and> analyzeFileName_v1 coffeeFileName = [u ''medium'']
   \<and> u ''coffee-maker'' \<notin> set [u ''medium'']"
proof -
  have "dedupe [] [u ''medium''] = [u ''medium'']" by code_simp
  then have a: "analyzeImage coffeeFileName [] = [u ''medium'']"
    by (simp add: analyzeImage_no_ai coffee_en)
  have b: "u ''coffee-maker'' \<notin> set [u ''medium'']" by code_simp
  show ?thesis using a b coffee_en_v1 by simp
qed

lemma find_filter_case:
  "(case filter P xs of [] \<Rightarrow> a | y # _ \<Rightarrow> f y) = (case find P xs of None \<Rightarrow> a | Some y \<Rightarrow> f y)"
  by (induction xs) auto

lemma combineKeywords_spec:
  assumes "t \<noteq> []" and "t \<noteq> u ''product''"
  shows "combineKeywords (t # rest) = extractKeyword_spec (t # rest)"
proof -
  let ?ks = "t # rest"
  obtain color where color: "find (\<lambda>k. k \<in> set colorTokens) ?ks = color" by simp
  obtain material where material: "find (\<lambda>k. k \<in> set materialTokens) ?ks = material" by simp
  obtain style where style: "find (\<lambda>k. k \<in> set styleTokens) ?ks = style" by simp
  obtain extra where extra: "find (\<lambda>k. k \<noteq> t \<and> k \<notin> set genericTokens) ?ks = extra" by simp
  have single: "rest = [] \<Longrightarrow> extra = None"
    using extra by auto
  show ?thesis
  proof (cases "color = None \<and> material = None \<and> style = None")
    case True
    then show ?thesis
      using assms single
      unfolding combineKeywords_def extractKeyword_spec_def Let_def find_filter_case
        color material style
      by (simp add: extra del: find.simps split: option.splits)
  next
    case False
    then show ?thesis
      using assms
      unfolding combineKeywords_def extractKeyword_spec_def Let_def find_filter_case
        color material style
      by (cases color; cases material; cases style) (simp_all del: find.simps)
  qed
qed

lemma combineKeywords_product: "combineKeywords [u ''product''] = extractKeyword_spec [u ''product'']"
  by code_simp

lemma analyzeImage_nonempty: "analyzeImage fileName aiKeywords \<noteq> []"
  by (simp add: analyzeImage_def Let_def)

text \<open>
  Claim C7, as the code has it: for a classification result that is the single token
  \<open>product\<close>, or whose first token is not empty and not \<open>product\<close>, \<open>extractKeywords\<close>
  returns the composition that the specification words (primary token, colour, material,
  style while fewer than 3 tokens are chosen, otherwise one more token that is not generic
  while fewer than 2 are chosen, joined by hyphens), unless the first token is \<open>product\<close>
  and the cleaned file name gives words: then it returns up to three of those words,
  joined by hyphens.
\<close>

theorem extractKeywords_composition:
  assumes ks: "analyzeImage fileName aiKeywords = ks"
    and shape: "ks = [u ''product''] \<or> (hd ks \<noteq> [] \<and> hd ks \<noteq> u ''product'')"
  shows "extractKeywords fileName aiKeywords =
           (if hd ks = u ''product'' \<and> length (cleanFileName fileName) > 2
               \<and> cleanFileName fileName \<noteq> dropMatchingSuffix isAnyExtension (toLowerCase fileName)
               \<and> fileNameWords (cleanFileName fileName) \<noteq> []
            then join (u ''-'') (fileNameWords (cleanFileName fileName))
            else extractKeyword_spec ks)"
proof -
  have ne: "ks \<noteq> []" using ks analyzeImage_nonempty by blast
  have c: "combineKeywords ks = extractKeyword_spec ks"
  proof (cases "ks = [u ''product'']")
    case True
    then show ?thesis by (simp add: combineKeywords_product)
  next
    case False
    then obtain t rest where "ks = t # rest" "t \<noteq> []" "t \<noteq> u ''product''"
      using shape ne by (cases ks) auto
    then show ?thesis by (simp add: combineKeywords_spec)
  qed
  show ?thesis
    using ne by (simp add: extractKeywords_def Let_def ks c)
qed

theorem extractKeywords_composition_witness:
  "extractKeywords (u ''photo_xyz.jpg'') [u ''dress'', u ''red'', u ''casual''] = u ''dress-red-casual''"
proof -
  have d: "dedupe [] [u ''dress'', u ''red'', u ''casual''] = [u ''dress'', u ''red'', u ''casual'']"
    by code_simp
  have a: "analyzeImage (u ''photo_xyz.jpg'') [u ''dress'', u ''red'', u ''casual'']
             = [u ''dress'', u ''red'', u ''casual'']"
    unfolding analyzeImage_def Let_def xyz_names append_Nil2 d by simp
  have b: "[u ''dress'', u ''red'', u ''casual''] = [u ''product'']
           \<or> (hd [u ''dress'', u ''red'', u ''casual''] \<noteq> []
                \<and> hd [u ''dress'', u ''red'', u ''casual''] \<noteq> u ''product'')"
    by code_simp
  have c: "hd [u ''dress'', u ''red'', u ''casual''] \<noteq> u ''product''"
    by code_simp
  have e: "extractKeyword_spec [u ''dress'', u ''red'', u ''casual''] = u ''dress-red-casual''"
    by code_simp
  show ?thesis
    using extractKeywords_composition [OF a b] c e by simp
qed

text \<open>
  For \<open>photo_xyz.jpg\<close> without a visual classifier the classification result is the single
  token \<open>product\<close>, whose composition is \<open>product\<close>; \<open>extractKeywords\<close> returns the word
  \<open>xyz\<close> of the cleaned file name instead.
\<close>

theorem extractKeywords_composition_counterexample:
  "analyzeImage (u ''photo_xyz.jpg'') [] = [u ''product'']
   \<and> extractKeywords (u ''photo_xyz.jpg'') [] = u ''xyz''
   \<and> extractKeyword_spec [u ''product''] = u ''product''"
proof -
  have a: "analyzeImage (u ''photo_xyz.jpg'') [] = [u ''product'']"
    by (simp add: analyzeImage_no_ai xyz_names)
  have c: "cleanFileName (u ''photo_xyz.jpg'') = u ''xyz''" by code_simp
  have l: "length (u ''xyz'') > 2" by code_simp
  have n: "u ''xyz'' \<noteq> dropMatchingSuffix isAnyExtension (toLowerCase (u ''photo_xyz.jpg''))"
    by code_simp
  have w: "fileNameWords (u ''xyz'') = [u ''xyz'']" by code_simp
  have b: "extractKeywords (u ''photo_xyz.jpg'') [] = u ''xyz''"
    using l n by (simp add: extractKeywords_def Let_def a c w)
  have s: "extractKeyword_spec [u ''product''] = u ''product''" by code_simp
  show ?thesis using a b s by simp
qed

end
